theory Spec2Isabelle
  imports Complex_Main "HOL-Library.Multiset"
begin

section \<open>Values of the embedding analysis core\<close>

text \<open>
  The TypeScript sources \<^verbatim>\<open>src/lib/dimensionality-reduction.ts\<close> (reducers, pipeline,
  clusterer, vector metrics) and \<^verbatim>\<open>src/types/embeddings.ts\<close> are embedded as HOL
  functions. A \<^verbatim>\<open>number\<close> is a finite real (the data model of the specification);
  rounding, infinite and not-a-number inputs are outside this model. The values of
  JavaScript that the code can still produce from finite numbers are kept:
  \<^item> \<^verbatim>\<open>undefined\<close>, the result of reading an array past its end, is \<open>None\<close> of
    \<open>real option\<close>;
  \<^item> \<^verbatim>\<open>NaN\<close>, the result of adding \<^verbatim>\<open>undefined\<close> to a number and of \<^verbatim>\<open>0 / 0\<close>, and
    the two infinities, the results of dividing another number by 0, are constructors of
    \<open>jsnum\<close>, the type of every sum and quotient the code computes.
  Record fields keep the names of the source, except \<^verbatim>\<open>x\<close>, \<^verbatim>\<open>y\<close>, \<^verbatim>\<open>z\<close>,
  \<^verbatim>\<open>id\<close>, \<^verbatim>\<open>label\<close>, \<^verbatim>\<open>method\<close> and the fields of the t-SNE options, which carry a
  prefix because field names are global constants here.
\<close>

datatype error =
    Error string      \<comment> \<open>\<^verbatim>\<open>new Error(message)\<close>\<close>
  | TypeError string  \<comment> \<open>reading a property of \<^verbatim>\<open>undefined\<close>\<close>
  | Thrown string     \<comment> \<open>anything thrown by ml-matrix, ml-pca or tsne-js\<close>

fun message :: "error \<Rightarrow> string" where
  "message (Error m) = m"
| "message (TypeError m) = m"
| "message (Thrown m) = m"

datatype jsnum = Num real | NaN | Infinity | NegInfinity

datatype 'a promise = Fulfilled 'a | Rejected error | Unsettled

datatype dimensionality = D2 | D3

fun dim_nat :: "dimensionality \<Rightarrow> nat" where
  "dim_nat D2 = 2"
| "dim_nat D3 = 3"

datatype reduction_method = Pca | Tsne

record EmbeddingData =
  ed_id :: string
  sentence :: string
  embedding :: "real list"
  timestamp :: string

record VisualizationConfig =
  cfg_method :: reduction_method
  dimensions :: dimensionality
  perplexity :: "real option"
  components :: "real option"
  showLabels :: bool
  colorScheme :: string

record ReducedPoint =
  pt_x :: "real option"
  pt_y :: "real option"
  pt_z :: "real option"
  pt_label :: string
  pt_id :: string

record ClusterInfo =
  centroid :: "jsnum list"
  sentences :: "string list"
  averageSimilarity :: real
  cl_label :: string

record ProcessedEmbeddings =
  original :: "EmbeddingData list"
  reduced :: "ReducedPoint list"
  clusters :: "ClusterInfo list"
  pe_method :: reduction_method
  variance :: "real list option"

subsection \<open>JavaScript operators on these values\<close>

definition js_nth :: "'a list \<Rightarrow> nat \<Rightarrow> 'a option" where
  \<comment> \<open>\<^verbatim>\<open>xs[i]\<close>: \<^verbatim>\<open>undefined\<close> past the end\<close>
  "js_nth xs i = (if i < length xs then Some (xs ! i) else None)"

definition js_or :: "real option \<Rightarrow> real \<Rightarrow> real" where
  \<comment> \<open>\<^verbatim>\<open>v || d\<close>: \<^verbatim>\<open>undefined\<close> and \<^verbatim>\<open>0\<close> are falsy\<close>
  "js_or v d = (case v of None \<Rightarrow> d | Some r \<Rightarrow> if r = 0 then d else r)"

definition js_or_random :: "(nat \<Rightarrow> real) \<Rightarrow> nat \<Rightarrow> real option \<Rightarrow> real \<times> nat" where
  \<comment> \<open>\<^verbatim>\<open>v || Math.random() - 0.5\<close>: the draw happens only when \<^verbatim>\<open>v\<close> is falsy;
      \<open>rnd n\<close> is the \<open>n\<close>-th value \<^verbatim>\<open>Math.random()\<close> returns in this call\<close>
  "js_or_random rnd n v =
     (case v of None \<Rightarrow> (rnd n - 0.5, n + 1)
      | Some r \<Rightarrow> if r = 0 then (rnd n - 0.5, n + 1) else (r, n))"

fun js_ge :: "real option \<Rightarrow> real option \<Rightarrow> bool" where
  \<comment> \<open>\<^verbatim>\<open>a >= b\<close>: false as soon as one side is \<^verbatim>\<open>undefined\<close>\<close>
  "js_ge (Some a) (Some b) = (a \<ge> b)"
| "js_ge _ _ = False"

fun js_lt :: "real option \<Rightarrow> real option \<Rightarrow> bool" where
  "js_lt (Some a) (Some b) = (a < b)"
| "js_lt _ _ = False"

definition js_sort :: "real option list \<Rightarrow> real option list" where
  \<comment> \<open>\<^verbatim>\<open>.sort((a, b) => a - b)\<close>: ascending, every \<^verbatim>\<open>undefined\<close> moved to the end\<close>
  "js_sort vs =
     map Some (sort (List.map_filter (\<lambda>v. v) vs)) @ filter (\<lambda>v. v = None) vs"

definition js_quotient :: "real \<Rightarrow> real \<Rightarrow> jsnum" where
  \<comment> \<open>\<^verbatim>\<open>a / b\<close> of two numbers. A zero denominator gives \<^verbatim>\<open>NaN\<close> or an infinity, never a
      number; the denominators of this program are lengths and products of square roots,
      so their zero is the positive one and the infinity has the sign of \<open>a\<close>\<close>
  "js_quotient a b =
     (if b \<noteq> 0 then Num (a / b)
      else if a = 0 then NaN
      else if a > 0 then Infinity
      else NegInfinity)"

fun js_gt :: "jsnum \<Rightarrow> jsnum \<Rightarrow> bool" where
  \<comment> \<open>\<^verbatim>\<open>a > b\<close>: false as soon as one side is \<^verbatim>\<open>NaN\<close>\<close>
  "js_gt NaN _ = False"
| "js_gt _ NaN = False"
| "js_gt (Num a) (Num b) = (a > b)"
| "js_gt Infinity Infinity = False"
| "js_gt Infinity _ = True"
| "js_gt _ Infinity = False"
| "js_gt NegInfinity _ = False"
| "js_gt _ NegInfinity = True"

fun js_add :: "jsnum \<Rightarrow> real option \<Rightarrow> jsnum" where
  \<comment> \<open>\<^verbatim>\<open>sum + v\<close>, where \<^verbatim>\<open>v\<close> may be \<^verbatim>\<open>undefined\<close>\<close>
  "js_add (Num s) (Some v) = Num (s + v)"
| "js_add Infinity (Some v) = Infinity"
| "js_add NegInfinity (Some v) = NegInfinity"
| "js_add _ _ = NaN"

fun js_div :: "jsnum \<Rightarrow> nat \<Rightarrow> jsnum" where
  \<comment> \<open>\<^verbatim>\<open>sum / n\<close> for a length \<^verbatim>\<open>n\<close>\<close>
  "js_div (Num s) n = js_quotient s (real n)"
| "js_div NaN n = NaN"
| "js_div Infinity n = Infinity"
| "js_div NegInfinity n = NegInfinity"

section \<open>Vector metrics\<close>

definition magnitude :: "real list \<Rightarrow> real" where
  \<comment> \<open>\<^verbatim>\<open>Math.sqrt(a.reduce((sum, val) => sum + val * val, 0))\<close>\<close>
  "magnitude a = sqrt (foldl (\<lambda>sum val. sum + val * val) 0 a)"

definition dot :: "real list \<Rightarrow> real list \<Rightarrow> real" where
  \<comment> \<open>\<^verbatim>\<open>a.reduce((sum, val, i) => sum + val * b[i], 0)\<close>, used where the lengths agree\<close>
  "dot a b = foldl (\<lambda>sum (val, bi). sum + val * bi) 0 (zip a b)"

definition cosineSimilarity :: "real list \<Rightarrow> real list \<Rightarrow> error + jsnum" where
  "cosineSimilarity a b =
     (if length a \<noteq> length b then Inl (Error ''Vectors must have the same length'')
      else
        let dotProduct = dot a b;
            magnitudeA = magnitude a;
            magnitudeB = magnitude b
        in if magnitudeA = 0 \<or> magnitudeB = 0 then Inr (Num 0)
           else Inr (js_quotient dotProduct (magnitudeA * magnitudeB)))"

text \<open>
  The loop of \<^verbatim>\<open>findMostSimilar\<close>: the state is the pair \<^verbatim>\<open>(maxSimilarity, mostSimilar)\<close>;
  an exception of \<^verbatim>\<open>cosineSimilarity\<close> leaves the loop.
\<close>

fun scan_candidates ::
  "string \<Rightarrow> real list \<Rightarrow> jsnum \<times> string \<Rightarrow> EmbeddingData list \<Rightarrow> error + (jsnum \<times> string)" where
  "scan_candidates targetSentence targetEmbedding st [] = Inr st"
| "scan_candidates targetSentence targetEmbedding (maxSimilarity, mostSimilar) (candidate # rest) =
     (if sentence candidate \<noteq> targetSentence then
        (case cosineSimilarity targetEmbedding (embedding candidate) of
           Inl e \<Rightarrow> Inl e
         | Inr similarity \<Rightarrow>
             if js_gt similarity maxSimilarity
             then scan_candidates targetSentence targetEmbedding
                    (similarity, sentence candidate) rest
             else scan_candidates targetSentence targetEmbedding
                    (maxSimilarity, mostSimilar) rest)
      else scan_candidates targetSentence targetEmbedding (maxSimilarity, mostSimilar) rest)"

definition findMostSimilar ::
  "string \<Rightarrow> real list \<Rightarrow> EmbeddingData list \<Rightarrow> error + (string \<times> jsnum) option" where
  \<comment> \<open>\<open>Inr None\<close> is \<^verbatim>\<open>null\<close>; the pair is \<^verbatim>\<open>{ sentence, similarity }\<close>\<close>
  "findMostSimilar targetSentence targetEmbedding candidates =
     (if length candidates = 0 then Inr None
      else
        (case scan_candidates targetSentence targetEmbedding (Num (- 1), []) candidates of
           Inl e \<Rightarrow> Inl e
         | Inr (maxSimilarity, mostSimilar) \<Rightarrow>
             if js_gt maxSimilarity (Num (- 1)) then Inr (Some (mostSimilar, maxSimilarity))
             else Inr None))"

section \<open>Linear reducer\<close>

text \<open>
  ml-matrix and ml-pca are external packages: the four calls \<^verbatim>\<open>performPCA\<close> makes are
  the fields of a record, over the packages' own object types \<open>'m\<close> and \<open>'p\<close>. Each
  call may throw.
\<close>

record ('m, 'p) pca_lib =
  Matrix_new :: "real list list \<Rightarrow> error + 'm"
  PCA_new :: "'m \<Rightarrow> error + 'p"                 \<comment> \<open>\<^verbatim>\<open>{ center: true, scale: false }\<close>\<close>
  PCA_predict :: "'p \<Rightarrow> 'm \<Rightarrow> nat \<Rightarrow> error + real list list"
                                                \<comment> \<open>\<^verbatim>\<open>predict(matrix, { nComponents }).to2DArray()\<close>\<close>
  PCA_getExplainedVariance :: "'p \<Rightarrow> error + real list"

record PCAResult =
  pca_reduced :: "real list list"
  pca_variance :: "real list"

definition pca_main :: "('m, 'p) pca_lib \<Rightarrow> real list list \<Rightarrow> dimensionality \<Rightarrow> error + PCAResult" where
  \<comment> \<open>lines 22 to 31, the part of the \<^verbatim>\<open>try\<close> block that calls the packages\<close>
  "pca_main lib embeddings d =
     (case Matrix_new lib embeddings of
        Inl e \<Rightarrow> Inl e
      | Inr matrix \<Rightarrow>
          (case PCA_new lib matrix of
             Inl e \<Rightarrow> Inl e
           | Inr pca \<Rightarrow>
               (case PCA_predict lib pca matrix (dim_nat d) of
                  Inl e \<Rightarrow> Inl e
                | Inr red \<Rightarrow>
                    (case PCA_getExplainedVariance lib pca of
                       Inl e \<Rightarrow> Inl e
                     | Inr var \<Rightarrow>
                         Inr \<lparr>pca_reduced = red, pca_variance = take (dim_nat d) var\<rparr>))))"

fun pca_fallback :: "(nat \<Rightarrow> real) \<Rightarrow> nat \<Rightarrow> nat \<Rightarrow> dimensionality \<Rightarrow> real list list \<Rightarrow> real list list" where
  \<comment> \<open>the \<^verbatim>\<open>map\<close> of the \<^verbatim>\<open>catch\<close> block: \<open>n\<close> counts the random draws so far, \<open>i\<close> is the index\<close>
  "pca_fallback rnd n i d [] = []"
| "pca_fallback rnd n i d (emb # rest) =
     (let c0 = js_or (js_nth emb 0) (real i);
          (c1, n1) = js_or_random rnd n (js_nth emb 1);
          (c2, n2) = js_or_random rnd n1 (js_nth emb 2)
      in take (dim_nat d) [c0, c1, c2] # pca_fallback rnd n2 (i + 1) d rest)"

definition performPCA ::
  "('m, 'p) pca_lib \<Rightarrow> (nat \<Rightarrow> real) \<Rightarrow> real list list \<Rightarrow> dimensionality \<Rightarrow> PCAResult" where
  "performPCA lib rnd embeddings d =
     (if length embeddings < 2 then
        \<lparr>pca_reduced = map (\<lambda>i. take (dim_nat d) [real i, 0, 0]) [0..<length embeddings],
         pca_variance = replicate (dim_nat d) 0.5\<rparr>
      else
        (case pca_main lib embeddings d of
           Inr result \<Rightarrow> result
         | Inl e \<Rightarrow>
             \<lparr>pca_reduced = pca_fallback rnd 0 0 d embeddings,
              pca_variance = replicate (dim_nat d) 0.3\<rparr>))"

section \<open>Nonlinear reducer\<close>

text \<open>
  tsne-js is external; \<^verbatim>\<open>src/types/tsne-js.d.ts\<close> declares the class the code uses. Its
  object is mutable, so every method takes the object's state \<open>'s\<close> and returns the new
  one; every method may throw.
\<close>

record TSNEOptions =
  opt_dim :: nat
  opt_perplexity :: real
  opt_earlyExaggeration :: real
  opt_learningRate :: real
  opt_nIter :: nat
  opt_metric :: string

record 's tsne_lib =
  TSNE_new :: "TSNEOptions \<Rightarrow> error + 's"
  TSNE_init :: "'s \<Rightarrow> real list list \<Rightarrow> error + 's"   \<comment> \<open>\<^verbatim>\<open>{ data, type: 'dense' }\<close>\<close>
  TSNE_step :: "'s \<Rightarrow> error + 's"
  TSNE_isConverged :: "'s \<Rightarrow> error + bool"
  TSNE_getSolution :: "'s \<Rightarrow> error + real list list"

record TSNERun =
  tsne_promise :: "real list list promise"  \<comment> \<open>what the returned promise does\<close>
  tsne_constructed :: "TSNEOptions list"     \<comment> \<open>the options of every \<^verbatim>\<open>new TSNE(...)\<close> executed\<close>

definition circle_simple :: "(nat \<Rightarrow> real) \<Rightarrow> real list list \<Rightarrow> dimensionality \<Rightarrow> real list list" where
  \<comment> \<open>lines 58 to 66; element \<open>i\<close> makes the \<open>i\<close>-th random draw when three dimensions are asked for\<close>
  "circle_simple rnd embeddings d =
     map (\<lambda>i.
        let angle = (real i / real (length embeddings)) * 2 * pi;
            radius = 1
        in take (dim_nat d)
             ([cos angle * radius, sin angle * radius] @ (if d = D3 then [rnd i - 0.5] else [])))
       [0..<length embeddings]"

definition circle_fallback :: "real list list \<Rightarrow> dimensionality \<Rightarrow> real list list" where
  \<comment> \<open>lines 108 to 116\<close>
  "circle_fallback embeddings d =
     map (\<lambda>i.
        let angle = (real i / real (length embeddings)) * 2 * pi;
            radius = 2
        in take (dim_nat d)
             ([cos angle * radius, sin angle * radius] @ (if d = D3 then [sin (angle * 2)] else [])))
       [0..<length embeddings]"

text \<open>
  The first \<^verbatim>\<open>step()\<close> runs inside the executor's \<^verbatim>\<open>try\<close>; every later one runs from a
  timer (after 1 ms on every 50th iteration, where progress is logged, after 0 ms
  otherwise), outside of it. \<open>iterations\<close> is the counter before the increment.
\<close>

definition maxIterations :: nat where
  "maxIterations = 500"

definition on_throw :: "bool \<Rightarrow> real list list \<Rightarrow> real list list promise" where
  \<comment> \<open>an exception inside the executor is caught and the fallback resolved; an exception
      inside a timer callback is caught by nobody and the promise stays unsettled\<close>
  "on_throw in_executor fallback = (if in_executor then Fulfilled fallback else Unsettled)"

function tsne_steps ::
  "'s tsne_lib \<Rightarrow> real list list \<Rightarrow> bool \<Rightarrow> 's \<Rightarrow> nat \<Rightarrow> real list list promise" where
  "tsne_steps lib fallback in_executor st iterations =
     (case TSNE_step lib st of
        Inl e \<Rightarrow> on_throw in_executor fallback
      | Inr st1 \<Rightarrow>
          (if iterations + 1 \<ge> maxIterations then
             (case TSNE_getSolution lib st1 of
                Inl e \<Rightarrow> on_throw in_executor fallback
              | Inr solution \<Rightarrow> Fulfilled solution)
           else
             (case TSNE_isConverged lib st1 of
                Inl e \<Rightarrow> on_throw in_executor fallback
              | Inr True \<Rightarrow>
                  (case TSNE_getSolution lib st1 of
                     Inl e \<Rightarrow> on_throw in_executor fallback
                   | Inr solution \<Rightarrow> Fulfilled solution)
              | Inr False \<Rightarrow> tsne_steps lib fallback False st1 (iterations + 1))))"
  by pat_completeness auto
termination
  by (relation "measure (\<lambda>(lib, fallback, in_executor, st, iterations). maxIterations - iterations)")
     (auto simp: maxIterations_def)

declare tsne_steps.simps [simp del]

definition performTSNE ::
  "'s tsne_lib \<Rightarrow> (nat \<Rightarrow> real) \<Rightarrow> real list list \<Rightarrow> dimensionality \<Rightarrow> real \<Rightarrow> TSNERun" where
  "performTSNE lib rnd embeddings d perplexity' =
     (if length embeddings < 4 then
        \<lparr>tsne_promise = Fulfilled (circle_simple rnd embeddings d), tsne_constructed = []\<rparr>
      else
        let options =
              \<lparr>opt_dim = dim_nat d,
               opt_perplexity =
                 min perplexity' (real_of_int \<lfloor>(real (length embeddings) - 1) / 3\<rfloor>),
               opt_earlyExaggeration = 4.0,
               opt_learningRate = 100.0,
               opt_nIter = 500,
               opt_metric = ''euclidean''\<rparr>;
            fallback = circle_fallback embeddings d
        in \<lparr>tsne_promise =
              (case TSNE_new lib options of
                 Inl e \<Rightarrow> Fulfilled fallback
               | Inr tsne \<Rightarrow>
                   (case TSNE_init lib tsne embeddings of
                      Inl e \<Rightarrow> Fulfilled fallback
                    | Inr tsne1 \<Rightarrow> tsne_steps lib fallback True tsne1 0)),
            tsne_constructed = [options]\<rparr>)"

section \<open>Clusterer\<close>

definition quadrant_of :: "real option \<Rightarrow> real option \<Rightarrow> ReducedPoint \<Rightarrow> nat" where
  \<comment> \<open>the index into \<^verbatim>\<open>quadrants\<close> chosen by the chain of comparisons, lines 213 to 221\<close>
  "quadrant_of xMedian yMedian point =
     (if js_ge (pt_x point) xMedian \<and> js_ge (pt_y point) yMedian then 0
      else if js_lt (pt_x point) xMedian \<and> js_ge (pt_y point) yMedian then 1
      else if js_ge (pt_x point) xMedian \<and> js_lt (pt_y point) yMedian then 2
      else 3)"

definition push_point ::
  "real option \<Rightarrow> real option \<Rightarrow> (string \<times> ReducedPoint list) list \<Rightarrow> ReducedPoint \<Rightarrow>
   (string \<times> ReducedPoint list) list" where
  \<comment> \<open>\<^verbatim>\<open>quadrants[q].points.push(point)\<close>\<close>
  "push_point xMedian yMedian quadrants point =
     (let q = quadrant_of xMedian yMedian point
      in quadrants[q := (fst (quadrants ! q), snd (quadrants ! q) @ [point])])"

definition make_cluster :: "string \<times> ReducedPoint list \<Rightarrow> ClusterInfo list" where
  \<comment> \<open>the body of \<^verbatim>\<open>quadrants.forEach\<close>: what one quadrant pushes onto \<^verbatim>\<open>clusters\<close>\<close>
  "make_cluster quadrant =
     (let points = snd quadrant in
      if length points > 0 then
        let centroidX = js_div (foldl (\<lambda>sum p. js_add sum (pt_x p)) (Num 0) points) (length points);
            centroidY = js_div (foldl (\<lambda>sum p. js_add sum (pt_y p)) (Num 0) points) (length points)
        in [\<lparr>centroid = [centroidX, centroidY],
             sentences = map pt_label points,
             averageSimilarity = 0.5,
             cl_label = fst quadrant\<rparr>]
      else [])"

definition performSimpleClustering :: "ReducedPoint list \<Rightarrow> EmbeddingData list \<Rightarrow> ClusterInfo list" where
  "performSimpleClustering reducedData originalData =
     (if length reducedData < 2 then []
      else
        let xValues = js_sort (map pt_x reducedData);
            yValues = js_sort (map pt_y reducedData);
            xMedian = xValues ! (length xValues div 2);
            yMedian = yValues ! (length yValues div 2);
            quadrants =
              foldl (push_point xMedian yMedian)
                [(''Top-Right'', []), (''Top-Left'', []), (''Bottom-Right'', []), (''Bottom-Left'', [])]
                reducedData
        in concat (map make_cluster quadrants))"

section \<open>Pipeline\<close>

text \<open>
  By its type an embedding is an array, so of the test \<^verbatim>\<open>!emb || emb.length === 0\<close> only
  the length remains. Neither reducer can throw or reject (the types of \<open>performPCA\<close>
  and \<open>tsne_steps\<close> say so); the \<^verbatim>\<open>catch\<close> of \<^verbatim>\<open>reduceDimensions\<close> is kept as the
  \<open>Rejected\<close> case of \<open>reduce_step\<close>.
\<close>

fun format_reduced ::
  "dimensionality \<Rightarrow> EmbeddingData list \<Rightarrow> nat \<Rightarrow> real list list \<Rightarrow> error + ReducedPoint list" where
  \<comment> \<open>lines 159 to 165; \<^verbatim>\<open>embeddingData[index].sentence\<close> throws when \<^verbatim>\<open>index\<close> is past the end\<close>
  "format_reduced d embeddingData index [] = Inr []"
| "format_reduced d embeddingData index (coords # rest) =
     (case js_nth embeddingData index of
        None \<Rightarrow> Inl (TypeError ''Cannot read properties of undefined'')
      | Some item \<Rightarrow>
          (case format_reduced d embeddingData (index + 1) rest of
             Inl e \<Rightarrow> Inl e
           | Inr points \<Rightarrow>
               Inr (\<lparr>pt_x = js_nth coords 0,
                     pt_y = js_nth coords 1,
                     pt_z = (if d = D3 then js_nth coords 2 else None),
                     pt_label = sentence item,
                     pt_id = ed_id item\<rparr> # points)))"

definition reduce_step ::
  "('m, 'p) pca_lib \<Rightarrow> 's tsne_lib \<Rightarrow> (nat \<Rightarrow> real) \<Rightarrow> real list list \<Rightarrow> VisualizationConfig \<Rightarrow>
   (real list list \<times> real list option) promise" where
  \<comment> \<open>lines 142 to 156: the \<^verbatim>\<open>try\<close> block, what it leaves in \<^verbatim>\<open>reduced\<close> and \<^verbatim>\<open>variance\<close>,
      and the \<^verbatim>\<open>catch\<close> that wraps a rejection\<close>
  "reduce_step pcaLib tsneLib rnd embeddings config =
     (if cfg_method config = Pca then
        let pcaResult = performPCA pcaLib rnd embeddings (dimensions config)
        in Fulfilled (pca_reduced pcaResult, Some (pca_variance pcaResult))
      else
        let perplexity' =
              js_or (perplexity config)
                (min 30 (real_of_int \<lfloor>(real (length embeddings) - 1) / 3\<rfloor>))
        in (case tsne_promise (performTSNE tsneLib rnd embeddings (dimensions config) perplexity') of
              Fulfilled red \<Rightarrow> Fulfilled (red, None)
            | Rejected e \<Rightarrow> Rejected (Error (''Dimensionality reduction failed: '' @ message e))
            | Unsettled \<Rightarrow> Unsettled))"

definition reduceDimensions ::
  "('m, 'p) pca_lib \<Rightarrow> 's tsne_lib \<Rightarrow> (nat \<Rightarrow> real) \<Rightarrow> EmbeddingData list \<Rightarrow> VisualizationConfig \<Rightarrow>
   ProcessedEmbeddings promise" where
  "reduceDimensions pcaLib tsneLib rnd embeddingData config =
     (let embeddings = map embedding embeddingData in
      if length embeddings = 0 then
        Rejected (Error ''No embeddings provided for dimensionality reduction'')
      else if list_ex (\<lambda>emb. length emb = 0) embeddings then
        Rejected (Error ''Invalid embeddings detected'')
      else
        (case reduce_step pcaLib tsneLib rnd embeddings config of
           Rejected e \<Rightarrow> Rejected e
         | Unsettled \<Rightarrow> Unsettled
         | Fulfilled (red, var) \<Rightarrow>
             (case format_reduced (dimensions config) embeddingData 0 red of
                Inl e \<Rightarrow> Rejected e
              | Inr formattedReduced \<Rightarrow>
                  Fulfilled
                    \<lparr>original = embeddingData,
                     reduced = formattedReduced,
                     clusters = performSimpleClustering formattedReduced embeddingData,
                     pe_method = cfg_method config,
                     variance = var\<rparr>)))"

definition is_InvalidInput :: "error \<Rightarrow> bool" where
  \<comment> \<open>the two validation errors of \<^verbatim>\<open>reduceDimensions\<close>, which the specification calls InvalidInput\<close>
  "is_InvalidInput e =
     (e = Error ''No embeddings provided for dimensionality reduction'' \<or>
      e = Error ''Invalid embeddings detected'')"

fun fails_InvalidInput :: "'a promise \<Rightarrow> bool" where
  "fails_InvalidInput (Rejected e) = is_InvalidInput e"
| "fails_InvalidInput _ = False"

section \<open>The mean of the specification\<close>

definition spec_mean :: "real option list \<Rightarrow> jsnum" where
  \<comment> \<open>the specification's centroid is the mean of the member coordinates: their sum
      divided by their number. A member whose coordinate is \<^verbatim>\<open>undefined\<close> leaves no mean
      (\<^verbatim>\<open>NaN\<close>). This definition follows the specification; \<open>make_cluster\<close> is the
      code it is compared with\<close>
  "spec_mean vs =
     (if list_ex (\<lambda>v. v = None) vs then NaN
      else js_quotient (sum_list (List.map_filter (\<lambda>v. v) vs)) (real (length vs)))"

section \<open>Stand-ins for the external packages\<close>

text \<open>
  The theorems below hold for every behaviour of the packages. To instantiate them at
  concrete inputs, small stand-ins are fixed: a matrix package that rejects an empty
  or ragged array and a projection on the first coordinates, an optimiser that
  converges after three steps and returns the first coordinates of its data, and one
  that reports the perplexity it was given. None is meant to compute what ml-pca or
  tsne-js compute.
\<close>

definition sample_pca_lib :: "(real list list, unit) pca_lib" where
  "sample_pca_lib =
     \<lparr>Matrix_new = (\<lambda>rows.
         if rows = [] \<or> list_ex (\<lambda>r. length r \<noteq> length (hd rows)) rows
         then Inl (Thrown ''RangeError: Inconsistent array dimensions'')
         else Inr rows),
      PCA_new = (\<lambda>m. Inr ()),
      PCA_predict = (\<lambda>p m k. Inr (map (take k) m)),
      PCA_getExplainedVariance = (\<lambda>p. Inr [0.5, 0.25, 0.125, 0.125])\<rparr>"

definition sample_tsne_lib :: "(TSNEOptions \<times> nat \<times> real list list) tsne_lib" where
  "sample_tsne_lib =
     \<lparr>TSNE_new = (\<lambda>options. Inr (options, 0, [])),
      TSNE_init = (\<lambda>(options, n, old) rows. Inr (options, 0, rows)),
      TSNE_step = (\<lambda>(options, n, rows). Inr (options, n + 1, rows)),
      TSNE_isConverged = (\<lambda>(options, n, rows). Inr (n \<ge> 3)),
      TSNE_getSolution = (\<lambda>(options, n, rows). Inr (map (take (opt_dim options)) rows))\<rparr>"

definition probe_tsne_lib :: "TSNEOptions tsne_lib" where
  \<comment> \<open>an optimiser that converges at once and returns, as its only coordinate, the
      perplexity it was constructed with\<close>
  "probe_tsne_lib =
     \<lparr>TSNE_new = (\<lambda>options. Inr options),
      TSNE_init = (\<lambda>options rows. Inr options),
      TSNE_step = (\<lambda>options. Inr options),
      TSNE_isConverged = (\<lambda>options. Inr True),
      TSNE_getSolution = (\<lambda>options. Inr [[opt_perplexity options]])\<rparr>"

definition sample_random :: "nat \<Rightarrow> real" where
  \<comment> \<open>a \<^verbatim>\<open>Math.random()\<close> that returns 0.5, then 0.25, then 0.125, ...\<close>
  "sample_random n = 1 / 2 ^ (n + 1)"

definition sample_record :: "string \<Rightarrow> real list \<Rightarrow> EmbeddingData" where
  "sample_record s v = \<lparr>ed_id = ''id-'' @ s, sentence = s, embedding = v, timestamp = ''t''\<rparr>"

definition sample_config :: "reduction_method \<Rightarrow> dimensionality \<Rightarrow> VisualizationConfig" where
  \<comment> \<open>the initial configuration of \<^verbatim>\<open>src/components/header.tsx\<close>, method and dimensions chosen\<close>
  "sample_config m d =
     \<lparr>cfg_method = m, dimensions = d, perplexity = Some 30, components = None,
      showLabels = True, colorScheme = ''viridis''\<rparr>"

definition sample_point :: "string \<Rightarrow> real \<Rightarrow> real \<Rightarrow> ReducedPoint" where
  "sample_point s a b = \<lparr>pt_x = Some a, pt_y = Some b, pt_z = None, pt_label = s, pt_id = ''id-'' @ s\<rparr>"

section \<open>Vector metrics: zero vectors\<close>

lemma foldl_squares:
  "foldl (\<lambda>sum val. sum + val * val) (s::real) a = s + sum_list (map (\<lambda>val. val * val) a)"
  by (induction a arbitrary: s) simp_all

lemma magnitude_zero: "magnitude a = 0 \<Longrightarrow> \<forall>val\<in>set a. val = 0"
proof -
  assume "magnitude a = 0"
  then have "sum_list (map (\<lambda>val. val * val) a) = 0"
    by (simp add: magnitude_def foldl_squares)
  moreover have "\<forall>x\<in>set (map (\<lambda>val. val * val) a). 0 \<le> x" by auto
  ultimately have "\<forall>x\<in>set (map (\<lambda>val. val * val) a). x = 0"
    by (simp only: sum_list_nonneg_eq_0_iff)
  then show ?thesis by auto
qed

lemma dot_zero_left:
  "\<forall>val\<in>set a. val = 0 \<Longrightarrow> foldl (\<lambda>sum (val, bi). sum + val * bi) (s::real) (zip a b) = s"
proof (induction a arbitrary: b s)
  case Nil
  show ?case by simp
next
  case (Cons x a)
  then show ?case by (cases b) simp_all
qed

lemma dot_zero_right:
  "\<forall>val\<in>set b. val = 0 \<Longrightarrow> foldl (\<lambda>sum (val, bi). sum + val * bi) (s::real) (zip a b) = s"
proof (induction a arbitrary: b s)
  case Nil
  show ?case by simp
next
  case (Cons x a)
  then show ?case by (cases b) simp_all
qed

lemma unguarded_quotient:
  assumes "magnitude a = 0 \<or> magnitude b = 0"
  shows "js_quotient (dot a b) (magnitude a * magnitude b) = NaN"
proof -
  from assms have "dot a b = 0"
    using magnitude_zero [of a] magnitude_zero [of b] dot_zero_left [of a 0 b] dot_zero_right [of b 0 a]
    unfolding dot_def by blast
  with assms show ?thesis by (auto simp: js_quotient_def)
qed

text \<open>
  C8. For two vectors of equal length of which at least one has Euclidean magnitude
  exactly 0, \<^verbatim>\<open>cosineSimilarity\<close> returns exactly the number 0, not \<^verbatim>\<open>NaN\<close> and not an
  error. It is the guard on the magnitudes that makes it so: the quotient of the last line,
  which the guard skips, is \<^verbatim>\<open>0 / 0\<close>, that is \<^verbatim>\<open>NaN\<close>, for these vectors.
\<close>

theorem cosineSimilarity_zero_magnitude:
  assumes "length a = length b"
    and "magnitude a = 0 \<or> magnitude b = 0"
  shows "cosineSimilarity a b = Inr (Num 0) \<and>
         js_quotient (dot a b) (magnitude a * magnitude b) = NaN"
  using assms unguarded_quotient [OF assms(2)] by (simp add: cosineSimilarity_def)

theorem cosineSimilarity_zero_magnitude_witness:
  "length [0, 0 :: real] = length [3, 4 :: real] \<and>
   (magnitude [0, 0] = 0 \<or> magnitude [3, 4] = 0) \<and>
   cosineSimilarity [0, 0] [3, 4] = Inr (Num 0) \<and>
   js_quotient (dot [0, 0] [3, 4]) (magnitude [0, 0] * magnitude [3, 4]) = NaN"
proof -
  have len: "length [0, 0 :: real] = length [3, 4 :: real]" by simp
  have mag: "magnitude [0, 0] = 0 \<or> magnitude [3, 4] = 0" by (simp add: magnitude_def)
  show ?thesis
    using len mag cosineSimilarity_zero_magnitude [OF len mag] by simp
qed

section \<open>Linear reducer: tiny inputs and totality\<close>

text \<open>
  C7. For a single input vector, \<^verbatim>\<open>performPCA\<close> returns exactly one point at the origin,
  \<open>(0, 0)\<close> for two dimensions and \<open>(0, 0, 0)\<close> for three, and a variance array with
  the placeholder 0.5 in each of the two or three entries. The packages are not called.
\<close>

theorem performPCA_single:
  "performPCA lib rnd [v] D2 = \<lparr>pca_reduced = [[0, 0]], pca_variance = [0.5, 0.5]\<rparr> \<and>
   performPCA lib rnd [v] D3 = \<lparr>pca_reduced = [[0, 0, 0]], pca_variance = [0.5, 0.5, 0.5]\<rparr>"
  by (simp add: performPCA_def numeral_2_eq_2 numeral_3_eq_3)

theorem performPCA_single_witness:
  "performPCA sample_pca_lib sample_random [[1, 2, 3]] D2 =
     \<lparr>pca_reduced = [[0, 0]], pca_variance = [0.5, 0.5]\<rparr> \<and>
   performPCA sample_pca_lib sample_random [[1, 2, 3]] D3 =
     \<lparr>pca_reduced = [[0, 0, 0]], pca_variance = [0.5, 0.5, 0.5]\<rparr>"
  using performPCA_single [of sample_pca_lib sample_random "[1, 2, 3]"] by simp

lemma length_pca_fallback: "length (pca_fallback rnd n i d embeddings) = length embeddings"
  by (induction embeddings arbitrary: n i) (auto simp: Let_def split: prod.splits)

lemma pca_main_rows:
  assumes "pca_main lib embeddings d = Inr result"
  shows "\<exists>m p. Matrix_new lib embeddings = Inr m \<and> PCA_new lib m = Inr p \<and>
           PCA_predict lib p m (dim_nat d) = Inr (pca_reduced result)"
  using assms unfolding pca_main_def
  by (simp split: sum.splits) auto

lemma sample_contract:
  "Matrix_new sample_pca_lib embeddings = Inr m \<Longrightarrow> PCA_new sample_pca_lib m = Inr p \<Longrightarrow>
   PCA_predict sample_pca_lib p m k = Inr r \<Longrightarrow> length r = length embeddings"
  by (auto simp: sample_pca_lib_def split: if_splits)

text \<open>
  C9. \<^verbatim>\<open>performPCA\<close> never raises: every exception of the packages is caught and
  replaced by the fallback layout, so the function returns a result on every list of
  vectors and both dimensionalities, and that result has one reduced point per input
  vector. On the main path the points are the rows ml-pca returns; that \<^verbatim>\<open>predict\<close>
  returns one row per row of the matrix it is given is the package's contract and the
  hypothesis here. The placeholder and the fallback need no hypothesis.
\<close>

theorem performPCA_one_point_per_vector:
  assumes "\<And>m p r. Matrix_new lib embeddings = Inr m \<Longrightarrow> PCA_new lib m = Inr p \<Longrightarrow>
             PCA_predict lib p m (dim_nat d) = Inr r \<Longrightarrow> length r = length embeddings"
  shows "length (pca_reduced (performPCA lib rnd embeddings d)) = length embeddings"
proof (cases "length embeddings < 2")
  case True
  then show ?thesis by (simp add: performPCA_def)
next
  case False
  show ?thesis
  proof (cases "pca_main lib embeddings d")
    case (Inl e)
    with False show ?thesis by (simp add: performPCA_def length_pca_fallback)
  next
    case (Inr result)
    from pca_main_rows [OF Inr] assms have "length (pca_reduced result) = length embeddings"
      by blast
    with False Inr show ?thesis by (simp add: performPCA_def)
  qed
qed

theorem performPCA_one_point_per_vector_witness:
  "length (pca_reduced (performPCA sample_pca_lib sample_random [[1, 2, 3], [4, 5, 6]] D2)) = 2 \<and>
   length (pca_reduced (performPCA sample_pca_lib sample_random [[1, 2, 3], [4]] D3)) = 2"
  using performPCA_one_point_per_vector [of sample_pca_lib "[[1, 2, 3], [4, 5, 6]]" D2 sample_random, OF sample_contract]
    performPCA_one_point_per_vector [of sample_pca_lib "[[1, 2, 3], [4]]" D3 sample_random, OF sample_contract]
  by simp

section \<open>Nonlinear reducer: perplexity and tiny inputs\<close>

lemma floor_third: "1 \<le> n \<Longrightarrow> real_of_int \<lfloor>(real n - 1) / 3\<rfloor> = real ((n - 1) div 3)"
proof -
  assume "1 \<le> n"
  then obtain m where n: "n = Suc m" by (cases n) auto
  have "\<lfloor>real m / real 3\<rfloor> = int (m div 3)" by (rule floor_divide_of_nat_eq)
  then show ?thesis by (simp add: n)
qed

lemma performTSNE_large:
  assumes "4 \<le> length embeddings"
    and "options =
           \<lparr>opt_dim = dim_nat d,
            opt_perplexity = min p (real_of_int \<lfloor>(real (length embeddings) - 1) / 3\<rfloor>),
            opt_earlyExaggeration = 4.0, opt_learningRate = 100.0, opt_nIter = 500,
            opt_metric = ''euclidean''\<rparr>"
  shows "performTSNE lib rnd embeddings d p =
           \<lparr>tsne_promise =
              (case TSNE_new lib options of
                 Inl e \<Rightarrow> Fulfilled (circle_fallback embeddings d)
               | Inr tsne \<Rightarrow>
                   (case TSNE_init lib tsne embeddings of
                      Inl e \<Rightarrow> Fulfilled (circle_fallback embeddings d)
                    | Inr tsne1 \<Rightarrow> tsne_steps lib (circle_fallback embeddings d) True tsne1 0)),
            tsne_constructed = [options]\<rparr>"
  using assms by (simp add: performTSNE_def Let_def)

lemma probe_steps:
  "tsne_steps probe_tsne_lib fallback True options 0 = Fulfilled [[opt_perplexity options]]"
  by (subst tsne_steps.simps) (simp add: probe_tsne_lib_def maxIterations_def)

text \<open>
  C4. With \<open>N \<ge> 4\<close> input vectors and configured perplexity \<open>p\<close>, the promise of
  \<^verbatim>\<open>performTSNE\<close> is what the optimiser does when it is constructed with perplexity
  \<open>min p (floor ((N - 1) / 3))\<close> (and the other five options of the source), initialised
  with the vectors and stepped: that value is the argument of the one \<^verbatim>\<open>new TSNE(...)\<close>.
  With \<open>N = 5\<close> the argument is \<open>min p 1\<close>, hence 1 for every configured perplexity of
  at least 1 (the default 30 among them).
\<close>

theorem performTSNE_perplexity:
  assumes "4 \<le> length embeddings"
  shows "tsne_promise (performTSNE lib rnd embeddings d p) =
           (case TSNE_new lib
                   \<lparr>opt_dim = dim_nat d,
                    opt_perplexity = min p (real_of_int \<lfloor>(real (length embeddings) - 1) / 3\<rfloor>),
                    opt_earlyExaggeration = 4.0, opt_learningRate = 100.0, opt_nIter = 500,
                    opt_metric = ''euclidean''\<rparr> of
              Inl e \<Rightarrow> Fulfilled (circle_fallback embeddings d)
            | Inr tsne \<Rightarrow>
                (case TSNE_init lib tsne embeddings of
                   Inl e \<Rightarrow> Fulfilled (circle_fallback embeddings d)
                 | Inr tsne1 \<Rightarrow> tsne_steps lib (circle_fallback embeddings d) True tsne1 0)) \<and>
         map opt_perplexity (tsne_constructed (performTSNE lib rnd embeddings d p)) =
           [min p (real_of_int \<lfloor>(real (length embeddings) - 1) / 3\<rfloor>)] \<and>
         (length embeddings = 5 \<longrightarrow>
            tsne_promise (performTSNE lib rnd embeddings d p) =
              (case TSNE_new lib
                      \<lparr>opt_dim = dim_nat d, opt_perplexity = min p 1,
                       opt_earlyExaggeration = 4.0, opt_learningRate = 100.0, opt_nIter = 500,
                       opt_metric = ''euclidean''\<rparr> of
                 Inl e \<Rightarrow> Fulfilled (circle_fallback embeddings d)
               | Inr tsne \<Rightarrow>
                   (case TSNE_init lib tsne embeddings of
                      Inl e \<Rightarrow> Fulfilled (circle_fallback embeddings d)
                    | Inr tsne1 \<Rightarrow> tsne_steps lib (circle_fallback embeddings d) True tsne1 0)) \<and>
            map opt_perplexity (tsne_constructed (performTSNE lib rnd embeddings d p)) = [min p 1])"
proof -
  have five: "real_of_int \<lfloor>(real (5::nat) - 1) / 3\<rfloor> = 1"
    using floor_third [of 5] by simp
  show ?thesis
    using five by (simp add: performTSNE_large [OF assms refl])
qed

theorem performTSNE_perplexity_witness:
  "4 \<le> length [[1, 0], [0, 1], [1, 1], [2, 1], [1, 2 :: real]] \<and>
   tsne_promise
     (performTSNE probe_tsne_lib sample_random [[1, 0], [0, 1], [1, 1], [2, 1], [1, 2]] D2 30) =
   Fulfilled [[1]]"
proof -
  let ?embeddings = "[[1, 0], [0, 1], [1, 1], [2, 1], [1, 2 :: real]]"
  have n: "4 \<le> length ?embeddings" by simp
  from performTSNE_perplexity [OF n, of probe_tsne_lib sample_random D2 30]
  have "tsne_promise (performTSNE probe_tsne_lib sample_random ?embeddings D2 30) =
        tsne_steps probe_tsne_lib (circle_fallback ?embeddings D2) True
          \<lparr>opt_dim = 2, opt_perplexity = min 30 1,
           opt_earlyExaggeration = 4.0, opt_learningRate = 100.0, opt_nIter = 500,
           opt_metric = ''euclidean''\<rparr> 0"
    by (simp add: probe_tsne_lib_def)
  also have "\<dots> = Fulfilled [[min 30 1]]"
    by (simp only: probe_steps TSNEOptions.simps)
  finally show ?thesis using n by simp
qed

text \<open>
  C6. With fewer than 4 input vectors and two target dimensions, \<^verbatim>\<open>performTSNE\<close> resolves
  with one point per vector, point \<open>i\<close> at angle \<open>2 \<pi> i / N\<close> on the unit circle, and
  constructs no optimiser: the iterative algorithm is never invoked. For \<open>N = 3\<close> the
  angles are 0, 120 and 240 degrees.
\<close>

theorem performTSNE_small:
  assumes "length embeddings < 4"
  shows "performTSNE lib rnd embeddings D2 p =
           \<lparr>tsne_promise = Fulfilled
              (map (\<lambda>i. [cos (2 * pi * real i / real (length embeddings)),
                         sin (2 * pi * real i / real (length embeddings))])
                 [0..<length embeddings]),
            tsne_constructed = []\<rparr>"
  using assms
  by (simp add: performTSNE_def circle_simple_def Let_def mult.commute mult.left_commute)

theorem performTSNE_small_witness:
  "length [[1, 0, 0], [0, 1, 0], [0, 0, 1 :: real]] < 4 \<and>
   performTSNE sample_tsne_lib sample_random [[1, 0, 0], [0, 1, 0], [0, 0, 1]] D2 30 =
     \<lparr>tsne_promise = Fulfilled [[1, 0], [cos (2 * pi / 3), sin (2 * pi / 3)],
                                 [cos (4 * pi / 3), sin (4 * pi / 3)]],
      tsne_constructed = []\<rparr>"
  using performTSNE_small [of "[[1, 0, 0], [0, 1, 0], [0, 0, 1]]" sample_tsne_lib sample_random 30]
  by (simp add: upt_rec)

section \<open>Clusterer: quadrants, partition and centroids\<close>

lemma quadrant_of_cases:
  "quadrant_of xm ym p = 0 \<or> quadrant_of xm ym p = 1 \<or> quadrant_of xm ym p = 2 \<or> quadrant_of xm ym p = 3"
  by (simp add: quadrant_of_def)

lemma push_point_four:
  "push_point xm ym [(n0, a0), (n1, a1), (n2, a2), (n3, a3)] p =
     [(n0, a0 @ filter (\<lambda>p. quadrant_of xm ym p = 0) [p]),
      (n1, a1 @ filter (\<lambda>p. quadrant_of xm ym p = 1) [p]),
      (n2, a2 @ filter (\<lambda>p. quadrant_of xm ym p = 2) [p]),
      (n3, a3 @ filter (\<lambda>p. quadrant_of xm ym p = 3) [p])]"
  using quadrant_of_cases [of xm ym p]
  by (auto simp: push_point_def numeral_2_eq_2 numeral_3_eq_3)

lemma foldl_push_point:
  "foldl (push_point xm ym) [(n0, a0), (n1, a1), (n2, a2), (n3, a3)] pts =
     [(n0, a0 @ filter (\<lambda>p. quadrant_of xm ym p = 0) pts),
      (n1, a1 @ filter (\<lambda>p. quadrant_of xm ym p = 1) pts),
      (n2, a2 @ filter (\<lambda>p. quadrant_of xm ym p = 2) pts),
      (n3, a3 @ filter (\<lambda>p. quadrant_of xm ym p = 3) pts)]"
proof (induction pts arbitrary: a0 a1 a2 a3)
  case Nil
  show ?case by simp
next
  case (Cons p pts)
  show ?case
    by (simp only: foldl_Cons push_point_four Cons.IH) simp
qed

lemma length_js_sort: "length (js_sort vs) = length vs"
proof -
  have "length (List.map_filter (\<lambda>v. v) vs) + length (filter (\<lambda>v. v = None) vs) = length vs"
    by (induction vs) (auto simp: map_filter_simps split: option.splits)
  then show ?thesis by (simp add: js_sort_def)
qed

lemma clustering_quadrants:
  assumes "2 \<le> length pts"
    and "xm = js_sort (map pt_x pts) ! (length pts div 2)"
    and "ym = js_sort (map pt_y pts) ! (length pts div 2)"
  shows "performSimpleClustering pts orig =
     make_cluster (''Top-Right'', filter (\<lambda>p. quadrant_of xm ym p = 0) pts) @
     make_cluster (''Top-Left'', filter (\<lambda>p. quadrant_of xm ym p = 1) pts) @
     make_cluster (''Bottom-Right'', filter (\<lambda>p. quadrant_of xm ym p = 2) pts) @
     make_cluster (''Bottom-Left'', filter (\<lambda>p. quadrant_of xm ym p = 3) pts)"
  using assms
  by (simp add: performSimpleClustering_def Let_def foldl_push_point length_js_sort)

lemma sentences_make_cluster:
  "concat (map sentences (make_cluster (n, ps))) = map pt_label ps"
  by (simp add: make_cluster_def Let_def)

lemma make_cluster_member:
  "c \<in> set (make_cluster q) \<Longrightarrow> sentences c \<noteq> [] \<and> length (centroid c) = 2"
  by (auto simp: make_cluster_def Let_def split: if_splits)

lemma mset_quadrants:
  "mset (filter (\<lambda>p. quadrant_of xm ym p = 0) pts) + mset (filter (\<lambda>p. quadrant_of xm ym p = 1) pts) +
   mset (filter (\<lambda>p. quadrant_of xm ym p = 2) pts) + mset (filter (\<lambda>p. quadrant_of xm ym p = 3) pts) =
   mset pts"
proof (induction pts)
  case Nil
  show ?case by simp
next
  case (Cons p pts)
  with quadrant_of_cases [of xm ym p] show ?case by auto
qed

lemma clustering_labels:
  assumes "2 \<le> length pts"
  shows "mset (concat (map sentences (performSimpleClustering pts orig))) = mset (map pt_label pts)"
proof -
  define xm where "xm = js_sort (map pt_x pts) ! (length pts div 2)"
  define ym where "ym = js_sort (map pt_y pts) ! (length pts div 2)"
  have "mset (concat (map sentences (performSimpleClustering pts orig))) =
     image_mset pt_label
       (mset (filter (\<lambda>p. quadrant_of xm ym p = 0) pts) + mset (filter (\<lambda>p. quadrant_of xm ym p = 1) pts) +
        mset (filter (\<lambda>p. quadrant_of xm ym p = 2) pts) + mset (filter (\<lambda>p. quadrant_of xm ym p = 3) pts))"
    unfolding clustering_quadrants [OF assms xm_def ym_def]
    by (simp only: map_append concat_append sentences_make_cluster mset_append mset_map image_mset_union
          add.assoc)
  then show ?thesis by (simp only: mset_quadrants mset_map)
qed

lemma clustering_member:
  "c \<in> set (performSimpleClustering pts orig) \<Longrightarrow> sentences c \<noteq> [] \<and> length (centroid c) = 2"
  by (auto simp: performSimpleClustering_def Let_def dest: make_cluster_member split: if_splits)

lemma distinct_concat_disjoint:
  assumes "distinct (concat xss)" and "\<forall>xs\<in>set xss. xs \<noteq> []"
    and "i < length xss" and "j < length xss" and "i \<noteq> j"
  shows "set (xss ! i) \<inter> set (xss ! j) = {}"
  by (metis assms(1,2,3,4,5) distinct_concat_iff nth_eq_iff_index_eq nth_mem removeAll_id)

text \<open>
  C10, as the code has it. For at least 2 points the clusters partition the points: the
  member lists together hold the label of every input point, each as often as input points
  carry it, and every emitted cluster has a member. When the labels of the input are
  pairwise distinct, this is the partition of the labels the claim states: the member
  lists are pairwise disjoint, their union is the set of input labels, and every input
  label is in the member list of exactly one cluster. Clusters hold labels, not
  identifiers, so two points with one label in different quadrants put that label into
  two clusters.
\<close>

theorem clustering_partitions_points:
  assumes "2 \<le> length pts" and "cs = performSimpleClustering pts orig"
  shows "mset (concat (map sentences cs)) = mset (map pt_label pts) \<and>
         (\<Union>c\<in>set cs. set (sentences c)) = set (map pt_label pts) \<and>
         (\<forall>c\<in>set cs. sentences c \<noteq> []) \<and>
         (distinct (map pt_label pts) \<longrightarrow>
            (\<forall>i<length cs. \<forall>j<length cs. i \<noteq> j \<longrightarrow>
               set (sentences (cs ! i)) \<inter> set (sentences (cs ! j)) = {}) \<and>
            (\<forall>p\<in>set pts. \<exists>!i. i < length cs \<and> pt_label p \<in> set (sentences (cs ! i))))"
proof -
  have labels: "mset (concat (map sentences cs)) = mset (map pt_label pts)"
    using assms by (simp only: clustering_labels)
  have nonempty: "\<forall>c\<in>set cs. sentences c \<noteq> []"
    using assms(2) clustering_member by blast
  have "set (concat (map sentences cs)) = set (map pt_label pts)"
    using labels by (rule mset_eq_setD)
  then have union: "(\<Union>c\<in>set cs. set (sentences c)) = set (map pt_label pts)"
    by simp
  have disjoint: "\<forall>i<length cs. \<forall>j<length cs. i \<noteq> j \<longrightarrow>
               set (sentences (cs ! i)) \<inter> set (sentences (cs ! j)) = {}"
    if d: "distinct (map pt_label pts)"
  proof (intro allI impI)
    fix i j
    assume ij: "i < length cs" "j < length cs" "i \<noteq> j"
    from d labels have dc: "distinct (concat (map sentences cs))"
      by (metis mset_eq_imp_distinct_iff)
    from nonempty have ne: "\<forall>xs\<in>set (map sentences cs). xs \<noteq> []" by simp
    from distinct_concat_disjoint [OF dc ne, of i j] ij
    show "set (sentences (cs ! i)) \<inter> set (sentences (cs ! j)) = {}" by simp
  qed
  have unique: "\<forall>p\<in>set pts. \<exists>!i. i < length cs \<and> pt_label p \<in> set (sentences (cs ! i))"
    if d: "distinct (map pt_label pts)"
  proof
    fix p
    assume "p \<in> set pts"
    then have "pt_label p \<in> (\<Union>c\<in>set cs. set (sentences c))"
      unfolding union by simp
    then obtain c where c: "c \<in> set cs" "pt_label p \<in> set (sentences c)" by blast
    then obtain i where i: "i < length cs" "cs ! i = c" by (auto simp: in_set_conv_nth)
    show "\<exists>!i. i < length cs \<and> pt_label p \<in> set (sentences (cs ! i))"
    proof (rule ex1I [of _ i])
      show "i < length cs \<and> pt_label p \<in> set (sentences (cs ! i))" using i c by simp
    next
      fix j
      assume j: "j < length cs \<and> pt_label p \<in> set (sentences (cs ! j))"
      show "j = i"
      proof (rule ccontr)
        assume "j \<noteq> i"
        with disjoint [OF d] i(1) j have "set (sentences (cs ! i)) \<inter> set (sentences (cs ! j)) = {}"
          by blast
        with i c j show False by blast
      qed
    qed
  qed
  from labels union nonempty disjoint unique show ?thesis by blast
qed

theorem clustering_partitions_points_witness:
  "2 \<le> length [sample_point ''d'' 1 1, sample_point ''a'' 0 0, sample_point ''c'' 1 0, sample_point ''b'' 0 1] \<and>
   distinct (map pt_label [sample_point ''d'' 1 1, sample_point ''a'' 0 0, sample_point ''c'' 1 0, sample_point ''b'' 0 1]) \<and>
   mset (concat (map sentences (performSimpleClustering
      [sample_point ''d'' 1 1, sample_point ''a'' 0 0, sample_point ''c'' 1 0, sample_point ''b'' 0 1] []))) =
     mset [''d'', ''a'', ''c'', ''b'']"
  using clustering_partitions_points
    [of "[sample_point ''d'' 1 1, sample_point ''a'' 0 0, sample_point ''c'' 1 0, sample_point ''b'' 0 1]"
        "performSimpleClustering
           [sample_point ''d'' 1 1, sample_point ''a'' 0 0, sample_point ''c'' 1 0, sample_point ''b'' 0 1] []"
        "[]"]
  by (simp add: sample_point_def)

text \<open>
  C10, as stated, fails for two points that share a label and fall into different
  quadrants: the label is a member of both clusters.
\<close>

theorem duplicate_labels_counterexample:
  "2 \<le> length [sample_point ''s'' 0 0, sample_point ''s'' 1 1] \<and>
   performSimpleClustering [sample_point ''s'' 0 0, sample_point ''s'' 1 1] [] =
     [\<lparr>centroid = [Num 1, Num 1], sentences = [''s''], averageSimilarity = 0.5, cl_label = ''Top-Right''\<rparr>,
      \<lparr>centroid = [Num 0, Num 0], sentences = [''s''], averageSimilarity = 0.5, cl_label = ''Bottom-Left''\<rparr>]"
  by code_simp

lemma all_defined: "None \<notin> set vs \<Longrightarrow> map Some (map the vs) = vs"
proof (induction vs)
  case Nil
  show ?case by simp
next
  case (Cons a vs)
  then show ?case by (cases a) auto
qed

lemma js_sort_Some: "js_sort (map Some rs) = map Some (sort rs)"
proof -
  have "List.map_filter (\<lambda>v. v) (map Some rs) = rs"
    by (induction rs) (simp_all add: map_filter_simps)
  moreover have "filter (\<lambda>v. v = None) (map Some rs) = []"
    by (induction rs) simp_all
  ultimately show ?thesis by (simp add: js_sort_def)
qed

lemma js_sort_defined:
  assumes "mset vs = mset (map Some rs)" and "sorted rs"
  shows "js_sort vs = map Some rs"
proof -
  from assms(1) have "set vs = set (map Some rs)" by (rule mset_eq_setD)
  then have "None \<notin> set vs" by auto
  then have vs: "vs = map Some (map the vs)" by (rule all_defined [symmetric])
  have "mset (map the vs) = image_mset the (mset vs)" by simp
  also have "\<dots> = image_mset the (image_mset Some (mset rs))" using assms(1) by simp
  also have "\<dots> = mset rs" by (simp add: multiset.map_comp comp_def)
  finally have "mset (map the vs) = mset rs" .
  then have "sort (map the vs) = rs"
    using assms(2) by (simp add: properties_for_sort)
  with js_sort_Some [of "map the vs"] vs show ?thesis by simp
qed

lemma make_cluster_single:
  "make_cluster (name, [p]) =
     [\<lparr>centroid = [js_div (js_add (Num 0) (pt_x p)) 1, js_div (js_add (Num 0) (pt_y p)) 1],
       sentences = [pt_label p], averageSimilarity = 0.5, cl_label = name\<rparr>]"
  by (simp add: make_cluster_def)

lemma filter_single:
  assumes "count (mset (map f xs)) c = 1"
  shows "\<exists>p. filter (\<lambda>x. f x = c) xs = [p] \<and> f p = c"
proof -
  have "length (filter (\<lambda>x. f x = c) xs) = count (mset (map f xs)) c"
    by (induction xs) auto
  with assms have "length (filter (\<lambda>x. f x = c) xs) = 1" by simp
  then obtain p where p: "filter (\<lambda>x. f x = c) xs = [p]"
    by (cases "filter (\<lambda>x. f x = c) xs") auto
  then have "p \<in> set (filter (\<lambda>x. f x = c) xs)" by simp
  then have "f p = c" by simp
  with p show ?thesis by blast
qed


lemma grid_quadrant:
  assumes "x1 < x2" and "y1 < y2"
    and "(pt_x p, pt_y p) \<in> {(Some x1, Some y1), (Some x1, Some y2), (Some x2, Some y1), (Some x2, Some y2)}"
  shows "(quadrant_of (Some x2) (Some y2) p = 0) = ((pt_x p, pt_y p) = (Some x2, Some y2))"
    and "(quadrant_of (Some x2) (Some y2) p = 1) = ((pt_x p, pt_y p) = (Some x1, Some y2))"
    and "(quadrant_of (Some x2) (Some y2) p = 2) = ((pt_x p, pt_y p) = (Some x2, Some y1))"
    and "(quadrant_of (Some x2) (Some y2) p = 3) = ((pt_x p, pt_y p) = (Some x1, Some y1))"
  using assms by (auto simp: quadrant_of_def)

lemma grid_clusters_explicit:
  assumes "x1 < x2" and "y1 < y2"
    and grid: "mset (map (\<lambda>p. (pt_x p, pt_y p)) pts) =
               mset [(Some x1, Some y1), (Some x1, Some y2), (Some x2, Some y1), (Some x2, Some y2)]"
  shows "\<exists>a b c d.
           (pt_x a, pt_y a) = (Some x2, Some y2) \<and> (pt_x b, pt_y b) = (Some x1, Some y2) \<and>
           (pt_x c, pt_y c) = (Some x2, Some y1) \<and> (pt_x d, pt_y d) = (Some x1, Some y1) \<and>
           mset pts = mset [a, b, c, d] \<and>
           performSimpleClustering pts orig =
             [\<lparr>centroid = [Num x2, Num y2], sentences = [pt_label a],
               averageSimilarity = 0.5, cl_label = ''Top-Right''\<rparr>,
              \<lparr>centroid = [Num x1, Num y2], sentences = [pt_label b],
               averageSimilarity = 0.5, cl_label = ''Top-Left''\<rparr>,
              \<lparr>centroid = [Num x2, Num y1], sentences = [pt_label c],
               averageSimilarity = 0.5, cl_label = ''Bottom-Right''\<rparr>,
              \<lparr>centroid = [Num x1, Num y1], sentences = [pt_label d],
               averageSimilarity = 0.5, cl_label = ''Bottom-Left''\<rparr>]"
proof -
  let ?pos = "\<lambda>p. (pt_x p, pt_y p)"
  let ?Q = "\<lambda>q p. quadrant_of (Some x2) (Some y2) p = q"
  from arg_cong [OF grid, of size] have len: "length pts = 4" by simp
  have "mset (map pt_x pts) = image_mset fst (mset (map ?pos pts))"
    by (simp add: multiset.map_comp comp_def)
  also have "\<dots> = mset (map Some [x1, x1, x2, x2])" unfolding grid by simp
  finally have "js_sort (map pt_x pts) = map Some [x1, x1, x2, x2]"
    using assms(1) by (intro js_sort_defined) simp_all
  then have xm: "js_sort (map pt_x pts) ! (length pts div 2) = Some x2"
    by (simp add: len)
  have "mset (map pt_y pts) = image_mset snd (mset (map ?pos pts))"
    by (simp add: multiset.map_comp comp_def)
  also have "\<dots> = mset (map Some [y1, y1, y2, y2])" unfolding grid by simp
  finally have "js_sort (map pt_y pts) = map Some [y1, y1, y2, y2]"
    using assms(2) by (intro js_sort_defined) simp_all
  then have ym: "js_sort (map pt_y pts) ! (length pts div 2) = Some y2"
    by (simp add: len)
  have corner: "?pos p \<in> {(Some x1, Some y1), (Some x1, Some y2), (Some x2, Some y1), (Some x2, Some y2)}"
    if "p \<in> set pts" for p
  proof -
    from that have "?pos p \<in> set (map ?pos pts)" by simp
    also have "set (map ?pos pts) = set [(Some x1, Some y1), (Some x1, Some y2), (Some x2, Some y1), (Some x2, Some y2)]"
      using grid by (rule mset_eq_setD)
    finally show ?thesis by simp
  qed
  have f0: "filter (?Q 0) pts = filter (\<lambda>p. ?pos p = (Some x2, Some y2)) pts"
    by (rule filter_cong [OF refl]) (simp only: grid_quadrant [OF assms(1,2) corner])
  have f1: "filter (?Q 1) pts = filter (\<lambda>p. ?pos p = (Some x1, Some y2)) pts"
    by (rule filter_cong [OF refl]) (simp only: grid_quadrant [OF assms(1,2) corner])
  have f2: "filter (?Q 2) pts = filter (\<lambda>p. ?pos p = (Some x2, Some y1)) pts"
    by (rule filter_cong [OF refl]) (simp only: grid_quadrant [OF assms(1,2) corner])
  have f3: "filter (?Q 3) pts = filter (\<lambda>p. ?pos p = (Some x1, Some y1)) pts"
    by (rule filter_cong [OF refl]) (simp only: grid_quadrant [OF assms(1,2) corner])
  have "count (mset (map ?pos pts)) (Some x2, Some y2) = 1"
    unfolding grid using assms(1,2) by simp
  from filter_single [OF this] obtain a where a: "filter (?Q 0) pts = [a]" "?pos a = (Some x2, Some y2)"
    unfolding f0 by blast
  have "count (mset (map ?pos pts)) (Some x1, Some y2) = 1"
    unfolding grid using assms(1,2) by simp
  from filter_single [OF this] obtain b where b: "filter (?Q 1) pts = [b]" "?pos b = (Some x1, Some y2)"
    unfolding f1 by blast
  have "count (mset (map ?pos pts)) (Some x2, Some y1) = 1"
    unfolding grid using assms(1,2) by simp
  from filter_single [OF this] obtain c where c: "filter (?Q 2) pts = [c]" "?pos c = (Some x2, Some y1)"
    unfolding f2 by blast
  have "count (mset (map ?pos pts)) (Some x1, Some y1) = 1"
    unfolding grid using assms(1,2) by simp
  from filter_single [OF this] obtain d where d: "filter (?Q 3) pts = [d]" "?pos d = (Some x1, Some y1)"
    unfolding f3 by blast
  have "mset [a] + mset [b] + mset [c] + mset [d] = mset pts"
    using mset_quadrants [of "Some x2" "Some y2" pts] by (simp only: a(1) b(1) c(1) d(1))
  then have members: "mset pts = mset [a, b, c, d]"
    by (simp add: add_mset_commute)
  have "2 \<le> length pts" using len by simp
  from clustering_quadrants [OF this xm [symmetric] ym [symmetric], of orig]
  have "performSimpleClustering pts orig =
          make_cluster (''Top-Right'', [a]) @ make_cluster (''Top-Left'', [b]) @
          make_cluster (''Bottom-Right'', [c]) @ make_cluster (''Bottom-Left'', [d])"
    by (simp only: a(1) b(1) c(1) d(1))
  also have "\<dots> =
             [\<lparr>centroid = [Num x2, Num y2], sentences = [pt_label a],
               averageSimilarity = 0.5, cl_label = ''Top-Right''\<rparr>,
              \<lparr>centroid = [Num x1, Num y2], sentences = [pt_label b],
               averageSimilarity = 0.5, cl_label = ''Top-Left''\<rparr>,
              \<lparr>centroid = [Num x2, Num y1], sentences = [pt_label c],
               averageSimilarity = 0.5, cl_label = ''Bottom-Right''\<rparr>,
              \<lparr>centroid = [Num x1, Num y1], sentences = [pt_label d],
               averageSimilarity = 0.5, cl_label = ''Bottom-Left''\<rparr>]"
    using a(2) b(2) c(2) d(2) by (simp add: make_cluster_single js_quotient_def)
  finally show ?thesis using a(2) b(2) c(2) d(2) members by blast
qed

text \<open>
  C5. Four points on the corners of a grid, \<open>x1 < x2\<close> and \<open>y1 < y2\<close>, in any order and
  with any labels, give exactly 4 clusters of exactly 1 member each. Both medians are the
  upper value (\<open>x2\<close> and \<open>y2\<close>), and a coordinate equal to its median goes to the
  \<open>\<ge>\<close> side: the point at \<open>(x2, y2)\<close> is the member of Top-Right, \<open>(x1, y2)\<close> of
  Top-Left, \<open>(x2, y1)\<close> of Bottom-Right and \<open>(x1, y1)\<close> of Bottom-Left.
\<close>

theorem grid_four_singleton_clusters:
  assumes "x1 < x2" and "y1 < y2"
    and "mset (map (\<lambda>p. (pt_x p, pt_y p)) pts) =
         mset [(Some x1, Some y1), (Some x1, Some y2), (Some x2, Some y1), (Some x2, Some y2)]"
    and "cs = performSimpleClustering pts orig"
  shows "length cs = 4 \<and> (\<forall>c\<in>set cs. length (sentences c) = 1) \<and>
         (\<exists>a b c d.
            (pt_x a, pt_y a) = (Some x2, Some y2) \<and> (pt_x b, pt_y b) = (Some x1, Some y2) \<and>
            (pt_x c, pt_y c) = (Some x2, Some y1) \<and> (pt_x d, pt_y d) = (Some x1, Some y1) \<and>
            mset pts = mset [a, b, c, d] \<and>
            cs =
              [\<lparr>centroid = [Num x2, Num y2], sentences = [pt_label a],
                averageSimilarity = 0.5, cl_label = ''Top-Right''\<rparr>,
               \<lparr>centroid = [Num x1, Num y2], sentences = [pt_label b],
                averageSimilarity = 0.5, cl_label = ''Top-Left''\<rparr>,
               \<lparr>centroid = [Num x2, Num y1], sentences = [pt_label c],
                averageSimilarity = 0.5, cl_label = ''Bottom-Right''\<rparr>,
               \<lparr>centroid = [Num x1, Num y1], sentences = [pt_label d],
                averageSimilarity = 0.5, cl_label = ''Bottom-Left''\<rparr>])"
proof -
  from grid_clusters_explicit [OF assms(1,2,3), of orig] obtain a b c d where
    ex: "(pt_x a, pt_y a) = (Some x2, Some y2) \<and> (pt_x b, pt_y b) = (Some x1, Some y2) \<and>
         (pt_x c, pt_y c) = (Some x2, Some y1) \<and> (pt_x d, pt_y d) = (Some x1, Some y1) \<and>
         mset pts = mset [a, b, c, d] \<and>
         performSimpleClustering pts orig =
              [\<lparr>centroid = [Num x2, Num y2], sentences = [pt_label a],
                averageSimilarity = 0.5, cl_label = ''Top-Right''\<rparr>,
               \<lparr>centroid = [Num x1, Num y2], sentences = [pt_label b],
                averageSimilarity = 0.5, cl_label = ''Top-Left''\<rparr>,
               \<lparr>centroid = [Num x2, Num y1], sentences = [pt_label c],
                averageSimilarity = 0.5, cl_label = ''Bottom-Right''\<rparr>,
               \<lparr>centroid = [Num x1, Num y1], sentences = [pt_label d],
                averageSimilarity = 0.5, cl_label = ''Bottom-Left''\<rparr>]"
    by blast
  then have cs: "cs =
              [\<lparr>centroid = [Num x2, Num y2], sentences = [pt_label a],
                averageSimilarity = 0.5, cl_label = ''Top-Right''\<rparr>,
               \<lparr>centroid = [Num x1, Num y2], sentences = [pt_label b],
                averageSimilarity = 0.5, cl_label = ''Top-Left''\<rparr>,
               \<lparr>centroid = [Num x2, Num y1], sentences = [pt_label c],
                averageSimilarity = 0.5, cl_label = ''Bottom-Right''\<rparr>,
               \<lparr>centroid = [Num x1, Num y1], sentences = [pt_label d],
                averageSimilarity = 0.5, cl_label = ''Bottom-Left''\<rparr>]"
    using assms(4) by simp
  have "length cs = 4" by (simp add: cs)
  moreover have "\<forall>c\<in>set cs. length (sentences c) = 1" by (simp add: cs)
  moreover have "\<exists>a b c d.
            (pt_x a, pt_y a) = (Some x2, Some y2) \<and> (pt_x b, pt_y b) = (Some x1, Some y2) \<and>
            (pt_x c, pt_y c) = (Some x2, Some y1) \<and> (pt_x d, pt_y d) = (Some x1, Some y1) \<and>
            mset pts = mset [a, b, c, d] \<and>
            cs =
              [\<lparr>centroid = [Num x2, Num y2], sentences = [pt_label a],
                averageSimilarity = 0.5, cl_label = ''Top-Right''\<rparr>,
               \<lparr>centroid = [Num x1, Num y2], sentences = [pt_label b],
                averageSimilarity = 0.5, cl_label = ''Top-Left''\<rparr>,
               \<lparr>centroid = [Num x2, Num y1], sentences = [pt_label c],
                averageSimilarity = 0.5, cl_label = ''Bottom-Right''\<rparr>,
               \<lparr>centroid = [Num x1, Num y1], sentences = [pt_label d],
                averageSimilarity = 0.5, cl_label = ''Bottom-Left''\<rparr>]"
    using ex assms(4) by blast
  ultimately show ?thesis by (intro conjI)
qed

theorem grid_four_singleton_clusters_witness:
  "(0::real) < 1 \<and>
   length (performSimpleClustering
     [sample_point ''d'' 1 1, sample_point ''a'' 0 0, sample_point ''c'' 1 0, sample_point ''b'' 0 1] []) = 4 \<and>
   list_all (\<lambda>c. length (sentences c) = 1) (performSimpleClustering
     [sample_point ''d'' 1 1, sample_point ''a'' 0 0, sample_point ''c'' 1 0, sample_point ''b'' 0 1] [])"
proof -
  let ?pts = "[sample_point ''d'' 1 1, sample_point ''a'' 0 0, sample_point ''c'' 1 0, sample_point ''b'' 0 1]"
  have lt: "(0::real) < 1" by simp
  have grid: "mset (map (\<lambda>p. (pt_x p, pt_y p)) ?pts) =
      mset [(Some 0, Some 0), (Some 0, Some 1), (Some 1, Some 0), (Some 1, Some 1)]"
    by (simp add: sample_point_def add_mset_commute)
  from grid_four_singleton_clusters [OF lt lt grid refl, of "[]"] lt
  show ?thesis by (simp add: list_all_iff)
qed

section \<open>Pipeline: validation and the clusters of a run\<close>

lemma tsne_steps_not_rejected: "tsne_steps lib fallback in_executor st iterations \<noteq> Rejected e"
proof (induction lib fallback in_executor st iterations rule: tsne_steps.induct)
  case (1 lib fallback in_executor st iterations)
  show ?case
    using "1.IH"
    by (subst tsne_steps.simps) (auto simp: on_throw_def split: sum.splits bool.splits)
qed

lemma performTSNE_not_rejected: "tsne_promise (performTSNE lib rnd embeddings d p) \<noteq> Rejected e"
  by (simp add: performTSNE_def Let_def tsne_steps_not_rejected split: sum.splits)

lemma reduce_step_not_rejected: "reduce_step pcaLib tsneLib rnd embeddings config \<noteq> Rejected e"
proof (cases "cfg_method config = Pca")
  case True
  then show ?thesis by (simp add: reduce_step_def Let_def)
next
  case False
  then show ?thesis
    using performTSNE_not_rejected [of tsneLib rnd embeddings "dimensions config"]
    by (simp add: reduce_step_def Let_def split: promise.splits)
qed

lemma format_reduced_error:
  "format_reduced d embeddingData index rows = Inl e \<Longrightarrow> \<not> is_InvalidInput e"
  by (induction rows arbitrary: index e)
     (auto simp: is_InvalidInput_def split: option.splits sum.splits)

lemma circle_simple_two:
  "circle_simple rnd [u, v] D2 = [[1, 0], [- 1, 0]]"
  "circle_simple rnd [u, v] D3 = [[1, 0, rnd 0 - 0.5], [- 1, 0, rnd 1 - 0.5]]"
  by (simp_all add: circle_simple_def upt_rec Let_def numeral_2_eq_2 numeral_3_eq_3)


lemma sample_run_mismatched:
  "reduceDimensions sample_pca_lib sample_tsne_lib sample_random
     [sample_record ''a'' [1], sample_record ''b'' [1, 2]] (sample_config Tsne D2) =
   Fulfilled
     \<lparr>original = [sample_record ''a'' [1], sample_record ''b'' [1, 2]],
      reduced = [sample_point ''a'' 1 0, sample_point ''b'' (- 1) 0],
      clusters = performSimpleClustering [sample_point ''a'' 1 0, sample_point ''b'' (- 1) 0]
                   [sample_record ''a'' [1], sample_record ''b'' [1, 2]],
      pe_method = Tsne, variance = None\<rparr>"
  by (simp add: reduceDimensions_def reduce_step_def performTSNE_def circle_simple_two Let_def
        sample_config_def sample_record_def sample_point_def js_nth_def)

text \<open>
  C1, as the code has it. \<^verbatim>\<open>reduceDimensions\<close> fails with a validation error exactly when
  the batch is empty or some vector is empty. The lengths of the vectors are never
  compared: a non-empty batch of non-empty vectors of different lengths passes validation
  and is handed to the reducer.
\<close>

theorem reduceDimensions_InvalidInput_iff:
  "fails_InvalidInput (reduceDimensions pcaLib tsneLib rnd embeddingData config) \<longleftrightarrow>
     embeddingData = [] \<or> (\<exists>item\<in>set embeddingData. embedding item = [])"
proof (cases "embeddingData = [] \<or> (\<exists>item\<in>set embeddingData. embedding item = [])")
  case True
  have "fails_InvalidInput (reduceDimensions pcaLib tsneLib rnd embeddingData config)"
  proof (cases "embeddingData = []")
    case True
    then show ?thesis by (simp add: reduceDimensions_def is_InvalidInput_def)
  next
    case False
    with True obtain item where "item \<in> set embeddingData" "embedding item = []" by blast
    then have "list_ex (\<lambda>emb. length emb = 0) (map embedding embeddingData)"
      by (force simp: list_ex_iff)
    with False show ?thesis by (simp add: reduceDimensions_def is_InvalidInput_def)
  qed
  with True show ?thesis by simp
next
  case False
  then have valid: "embeddingData \<noteq> []" "\<not> list_ex (\<lambda>emb. length emb = 0) (map embedding embeddingData)"
    by (auto simp: list_ex_iff)
  have "\<not> fails_InvalidInput (reduceDimensions pcaLib tsneLib rnd embeddingData config)"
  proof (cases "reduce_step pcaLib tsneLib rnd (map embedding embeddingData) config")
    case (Fulfilled res)
    obtain red var where res: "res = (red, var)" by (cases res)
    show ?thesis
    proof (cases "format_reduced (dimensions config) embeddingData 0 red")
      case (Inl e)
      with Fulfilled res valid format_reduced_error [OF Inl] show ?thesis
        by (simp add: reduceDimensions_def Let_def)
    next
      case (Inr pts)
      with Fulfilled res valid show ?thesis
        by (simp add: reduceDimensions_def Let_def)
    qed
  next
    case (Rejected e)
    with reduce_step_not_rejected show ?thesis by blast
  next
    case Unsettled
    with valid show ?thesis by (simp add: reduceDimensions_def Let_def)
  qed
  with False show ?thesis by simp
qed

theorem reduceDimensions_InvalidInput_iff_witness:
  "fails_InvalidInput (reduceDimensions sample_pca_lib sample_tsne_lib sample_random []
      (sample_config Pca D2)) \<and>
   fails_InvalidInput (reduceDimensions sample_pca_lib sample_tsne_lib sample_random
      [sample_record ''a'' [1], sample_record ''b'' []] (sample_config Pca D2)) \<and>
   \<not> fails_InvalidInput (reduceDimensions sample_pca_lib sample_tsne_lib sample_random
      [sample_record ''a'' [1], sample_record ''b'' [1, 2]] (sample_config Pca D2))"
  using reduceDimensions_InvalidInput_iff [of sample_pca_lib sample_tsne_lib sample_random "[]" "sample_config Pca D2"]
    reduceDimensions_InvalidInput_iff [of sample_pca_lib sample_tsne_lib sample_random
      "[sample_record ''a'' [1], sample_record ''b'' []]" "sample_config Pca D2"]
    reduceDimensions_InvalidInput_iff [of sample_pca_lib sample_tsne_lib sample_random
      "[sample_record ''a'' [1], sample_record ''b'' [1, 2]]" "sample_config Pca D2"]
  by (simp add: sample_record_def)

text \<open>
  C1, as stated, fails for a batch of two non-empty vectors of lengths 1 and 2: the run
  does not fail, it returns one reduced point per record.
\<close>

theorem mismatched_lengths_counterexample:
  "length (embedding (sample_record ''a'' [1])) \<noteq> length (embedding (sample_record ''b'' [1, 2])) \<and>
   embedding (sample_record ''a'' [1]) \<noteq> [] \<and> embedding (sample_record ''b'' [1, 2]) \<noteq> [] \<and>
   \<not> fails_InvalidInput (reduceDimensions sample_pca_lib sample_tsne_lib sample_random
      [sample_record ''a'' [1], sample_record ''b'' [1, 2]] (sample_config Tsne D2)) \<and>
   (case reduceDimensions sample_pca_lib sample_tsne_lib sample_random
      [sample_record ''a'' [1], sample_record ''b'' [1, 2]] (sample_config Tsne D2) of
      Fulfilled result \<Rightarrow> map pt_label (reduced result) | _ \<Rightarrow> []) = [''a'', ''b'']"
  by (simp add: sample_run_mismatched) (simp add: sample_record_def sample_point_def)

lemma clusters_of_run:
  assumes "reduceDimensions pcaLib tsneLib rnd embeddingData config = Fulfilled result"
  shows "clusters result = performSimpleClustering (reduced result) embeddingData"
  using assms
  by (auto simp: reduceDimensions_def Let_def split: if_splits promise.splits sum.splits prod.splits)

lemma foldl_js_add_NaN: "foldl (\<lambda>sum p. js_add sum (f p)) NaN ps = NaN"
  by (induction ps) simp_all

lemma foldl_js_add:
  "foldl (\<lambda>sum p. js_add sum (f p)) (Num s) ps =
     (if list_ex (\<lambda>v. v = None) (map f ps) then NaN
      else Num (s + sum_list (List.map_filter (\<lambda>v. v) (map f ps))))"
proof (induction ps arbitrary: s)
  case Nil
  show ?case by (simp add: map_filter_simps)
next
  case (Cons p ps)
  show ?case
  proof (cases "f p")
    case None
    then show ?thesis by (simp add: foldl_js_add_NaN)
  next
    case (Some v)
    then show ?thesis by (simp add: Cons.IH map_filter_simps add.assoc)
  qed
qed

lemma centroid_is_mean:
  "js_div (foldl (\<lambda>sum p. js_add sum (f p)) (Num 0) ps) (length ps) = spec_mean (map f ps)"
  by (simp add: foldl_js_add spec_mean_def)

lemma make_cluster_mean:
  assumes "c \<in> set (make_cluster (name, ps))"
  shows "ps \<noteq> [] \<and> sentences c = map pt_label ps \<and>
         centroid c = [spec_mean (map pt_x ps), spec_mean (map pt_y ps)]"
  using assms by (auto simp: make_cluster_def Let_def centroid_is_mean split: if_splits)

lemma clustering_mean:
  assumes "c \<in> set (performSimpleClustering pts orig)"
  shows "\<exists>members. members \<noteq> [] \<and> (\<exists>P. members = filter P pts) \<and>
           sentences c = map pt_label members \<and>
           centroid c = [spec_mean (map pt_x members), spec_mean (map pt_y members)]"
proof -
  from assms have len: "2 \<le> length pts"
    by (auto simp: performSimpleClustering_def split: if_splits)
  define xm where "xm = js_sort (map pt_x pts) ! (length pts div 2)"
  define ym where "ym = js_sort (map pt_y pts) ! (length pts div 2)"
  from assms clustering_quadrants [OF len xm_def ym_def, of orig]
  obtain name q where "c \<in> set (make_cluster (name, filter (\<lambda>p. quadrant_of xm ym p = q) pts))"
    by auto
  from make_cluster_mean [OF this] show ?thesis by blast
qed

lemma spec_mean_defined:
  "rs \<noteq> [] \<Longrightarrow> spec_mean (map Some rs) = Num (sum_list rs / real (length rs))"
proof -
  assume "rs \<noteq> []"
  moreover have "List.map_filter (\<lambda>v. v) (map Some rs) = rs"
    by (induction rs) (simp_all add: map_filter_simps)
  moreover have "\<not> list_ex (\<lambda>v. v = None) (map Some rs)"
    by (induction rs) simp_all
  ultimately show ?thesis by (simp add: spec_mean_def js_quotient_def)
qed

lemma sample_run_linear:
  "reduceDimensions sample_pca_lib sample_tsne_lib sample_random
     [sample_record ''a'' [0, 0, 0], sample_record ''b'' [2, 2, 2], sample_record ''c'' [4, 4, 4]]
     (sample_config Pca D3) =
   Fulfilled
     \<lparr>original = [sample_record ''a'' [0, 0, 0], sample_record ''b'' [2, 2, 2], sample_record ''c'' [4, 4, 4]],
      reduced = [\<lparr>pt_x = Some 0, pt_y = Some 0, pt_z = Some 0, pt_label = ''a'', pt_id = ''id-a''\<rparr>,
                 \<lparr>pt_x = Some 2, pt_y = Some 2, pt_z = Some 2, pt_label = ''b'', pt_id = ''id-b''\<rparr>,
                 \<lparr>pt_x = Some 4, pt_y = Some 4, pt_z = Some 4, pt_label = ''c'', pt_id = ''id-c''\<rparr>],
      clusters = performSimpleClustering
                   [\<lparr>pt_x = Some 0, pt_y = Some 0, pt_z = Some 0, pt_label = ''a'', pt_id = ''id-a''\<rparr>,
                    \<lparr>pt_x = Some 2, pt_y = Some 2, pt_z = Some 2, pt_label = ''b'', pt_id = ''id-b''\<rparr>,
                    \<lparr>pt_x = Some 4, pt_y = Some 4, pt_z = Some 4, pt_label = ''c'', pt_id = ''id-c''\<rparr>]
                   [sample_record ''a'' [0, 0, 0], sample_record ''b'' [2, 2, 2], sample_record ''c'' [4, 4, 4]],
      pe_method = Pca, variance = Some [0.5, 0.25, 0.125]\<rparr>"
  by (simp add: reduceDimensions_def reduce_step_def performPCA_def pca_main_def sample_pca_lib_def
        Let_def sample_config_def sample_record_def js_nth_def numeral_3_eq_3)

lemma sample_clusters_linear:
  "performSimpleClustering
     [\<lparr>pt_x = Some 0, pt_y = Some 0, pt_z = Some 0, pt_label = ''a'', pt_id = ''id-a''\<rparr>,
      \<lparr>pt_x = Some 2, pt_y = Some 2, pt_z = Some 2, pt_label = ''b'', pt_id = ''id-b''\<rparr>,
      \<lparr>pt_x = Some 4, pt_y = Some 4, pt_z = Some 4, pt_label = ''c'', pt_id = ''id-c''\<rparr>]
     [sample_record ''a'' [0, 0, 0], sample_record ''b'' [2, 2, 2], sample_record ''c'' [4, 4, 4]] =
   [\<lparr>centroid = [Num 3, Num 3], sentences = [''b'', ''c''], averageSimilarity = 0.5, cl_label = ''Top-Right''\<rparr>,
    \<lparr>centroid = [Num 0, Num 0], sentences = [''a''], averageSimilarity = 0.5, cl_label = ''Bottom-Left''\<rparr>]"
  by code_simp

lemma sample_run_three_dimensions:
  "reduceDimensions sample_pca_lib sample_tsne_lib sample_random
     [sample_record ''a'' [1, 2, 3], sample_record ''b'' [3, 2, 1]] (sample_config Tsne D3) =
   Fulfilled
     \<lparr>original = [sample_record ''a'' [1, 2, 3], sample_record ''b'' [3, 2, 1]],
      reduced = [\<lparr>pt_x = Some 1, pt_y = Some 0, pt_z = Some 0, pt_label = ''a'', pt_id = ''id-a''\<rparr>, \<lparr>pt_x = Some (- 1), pt_y = Some 0, pt_z = Some (- (1 / 4)), pt_label = ''b'', pt_id = ''id-b''\<rparr>],
      clusters = performSimpleClustering
                   [\<lparr>pt_x = Some 1, pt_y = Some 0, pt_z = Some 0, pt_label = ''a'', pt_id = ''id-a''\<rparr>, \<lparr>pt_x = Some (- 1), pt_y = Some 0, pt_z = Some (- (1 / 4)), pt_label = ''b'', pt_id = ''id-b''\<rparr>]
                   [sample_record ''a'' [1, 2, 3], sample_record ''b'' [3, 2, 1]],
      pe_method = Tsne, variance = None\<rparr>"
  by (simp add: reduceDimensions_def reduce_step_def performTSNE_def circle_simple_two Let_def
        sample_config_def sample_record_def sample_point_def js_nth_def sample_random_def)

lemma sample_clusters_three_dimensions:
  "performSimpleClustering
        [\<lparr>pt_x = Some 1, pt_y = Some 0, pt_z = Some 0, pt_label = ''a'', pt_id = ''id-a''\<rparr>, \<lparr>pt_x = Some (- 1), pt_y = Some 0, pt_z = Some (- (1 / 4)), pt_label = ''b'', pt_id = ''id-b''\<rparr>]
        [sample_record ''a'' [1, 2, 3], sample_record ''b'' [3, 2, 1]] =
   [\<lparr>centroid = [Num 1, Num 0], sentences = [''a''], averageSimilarity = 0.5, cl_label = ''Top-Right''\<rparr>,
    \<lparr>centroid = [Num (- 1), Num 0], sentences = [''b''], averageSimilarity = 0.5, cl_label = ''Top-Left''\<rparr>]"
  by code_simp

text \<open>
  C3, as the code has it. In every analysis run, for target dimensionality 2 and 3 alike,
  every cluster has a centroid of exactly 2 coordinates: the cluster has at least one
  member, its members are points of the run's reduced list, and the centroid is the mean
  of the \<open>x\<close> and the mean of the \<open>y\<close> of these members (\<open>spec_mean\<close>; for members with
  both coordinates present, the sum divided by the number of members). The third
  coordinate of the points is not used by the clusterer.
\<close>

theorem cluster_centroid_two_coordinates:
  assumes "reduceDimensions pcaLib tsneLib rnd embeddingData config = Fulfilled result"
    and "c \<in> set (clusters result)"
  shows "length (centroid c) = 2 \<and>
         (\<exists>members. members \<noteq> [] \<and> (\<exists>P. members = filter P (reduced result)) \<and>
            sentences c = map pt_label members \<and>
            centroid c = [spec_mean (map pt_x members), spec_mean (map pt_y members)])"
proof -
  from assms have "c \<in> set (performSimpleClustering (reduced result) embeddingData)"
    by (simp add: clusters_of_run)
  from clustering_mean [OF this]
  have "\<exists>members. members \<noteq> [] \<and> (\<exists>P. members = filter P (reduced result)) \<and>
            sentences c = map pt_label members \<and>
            centroid c = [spec_mean (map pt_x members), spec_mean (map pt_y members)]" .
  moreover from this have "length (centroid c) = 2" by auto
  ultimately show ?thesis by blast
qed

theorem cluster_centroid_two_coordinates_witness:
  "(case reduceDimensions sample_pca_lib sample_tsne_lib sample_random
      [sample_record ''a'' [0, 0, 0], sample_record ''b'' [2, 2, 2], sample_record ''c'' [4, 4, 4]]
      (sample_config Pca D3) of
      Fulfilled result \<Rightarrow>
        map (\<lambda>c. (sentences c, centroid c)) (clusters result) =
          [([''b'', ''c''], [Num 3, Num 3]), ([''a''], [Num 0, Num 0])] \<and>
        spec_mean [Some 2, Some 4] = Num 3 \<and>
        list_all (\<lambda>c. length (centroid c) = 2 \<and>
            (\<exists>members. members \<noteq> [] \<and> (\<exists>P. members = filter P (reduced result)) \<and>
               sentences c = map pt_label members \<and>
               centroid c = [spec_mean (map pt_x members), spec_mean (map pt_y members)]))
          (clusters result)
    | _ \<Rightarrow> False)"
proof -
  let ?run = "reduceDimensions sample_pca_lib sample_tsne_lib sample_random
      [sample_record ''a'' [0, 0, 0], sample_record ''b'' [2, 2, 2], sample_record ''c'' [4, 4, 4]]
      (sample_config Pca D3)"
  obtain result where run: "?run = Fulfilled result"
    and cs: "clusters result =
      [\<lparr>centroid = [Num 3, Num 3], sentences = [''b'', ''c''], averageSimilarity = 0.5, cl_label = ''Top-Right''\<rparr>,
       \<lparr>centroid = [Num 0, Num 0], sentences = [''a''], averageSimilarity = 0.5, cl_label = ''Bottom-Left''\<rparr>]"
    by (simp add: sample_run_linear sample_clusters_linear)
  have "list_all (\<lambda>c. length (centroid c) = 2 \<and>
            (\<exists>members. members \<noteq> [] \<and> (\<exists>P. members = filter P (reduced result)) \<and>
               sentences c = map pt_label members \<and>
               centroid c = [spec_mean (map pt_x members), spec_mean (map pt_y members)]))
          (clusters result)"
    unfolding list_all_iff using cluster_centroid_two_coordinates [OF run] by blast
  moreover have "spec_mean [Some 2, Some 4] = Num 3"
    using spec_mean_defined [of "[2, 4]"] by simp
  moreover have "map (\<lambda>c. (sentences c, centroid c)) (clusters result) =
          [([''b'', ''c''], [Num 3, Num 3]), ([''a''], [Num 0, Num 0])]"
    by (simp add: cs)
  ultimately show ?thesis by (simp add: run)
qed

text \<open>
  C3, as stated, fails for a run with target dimensionality 3: the two clusters of this
  run have centroids of 2 coordinates.
\<close>

theorem three_dimensions_counterexample:
  "dimensions (sample_config Tsne D3) = D3 \<and>
   (case reduceDimensions sample_pca_lib sample_tsne_lib sample_random
      [sample_record ''a'' [1, 2, 3], sample_record ''b'' [3, 2, 1]] (sample_config Tsne D3) of
      Fulfilled result \<Rightarrow> map (\<lambda>c. length (centroid c)) (clusters result) | _ \<Rightarrow> []) = [2, 2]"
  by (simp add: sample_run_three_dimensions sample_clusters_three_dimensions) (simp add: sample_config_def)

section \<open>Most similar candidate\<close>

text \<open>
  What the scan does away from the boundary: it returns \<^verbatim>\<open>null\<close> for an empty candidate set
  and for candidates that all carry the target's label; and when the candidates with
  another label have vectors of the target's length and one of them has a similarity above
  \<open>-1\<close>, it returns a candidate of another label whose similarity is maximal among them.
\<close>

lemma cosineSimilarity_Num:
  "length a = length b \<Longrightarrow> \<exists>v. cosineSimilarity a b = Inr (Num v)"
  by (simp add: cosineSimilarity_def Let_def js_quotient_def)

lemma scan_candidates_same_label:
  "\<forall>c\<in>set cands. sentence c = t \<Longrightarrow> scan_candidates t e (m0, s0) cands = Inr (m0, s0)"
  by (induction cands) simp_all

lemma findMostSimilar_null:
  assumes "candidates = [] \<or> (\<forall>c\<in>set candidates. sentence c = t)"
  shows "findMostSimilar t e candidates = Inr None"
  using assms by (auto simp: findMostSimilar_def scan_candidates_same_label)

lemma scan_candidates_maximum:
  assumes "\<forall>c\<in>set cands. sentence c \<noteq> t \<longrightarrow> length (embedding c) = length e"
  shows "\<exists>m s. scan_candidates t e (Num m0, s0) cands = Inr (Num m, s) \<and> m0 \<le> m \<and>
           (\<forall>c\<in>set cands. sentence c \<noteq> t \<longrightarrow>
              (\<exists>v. cosineSimilarity e (embedding c) = Inr (Num v) \<and> v \<le> m)) \<and>
           (m = m0 \<and> s = s0 \<or>
            (\<exists>c\<in>set cands. sentence c \<noteq> t \<and> s = sentence c \<and>
               cosineSimilarity e (embedding c) = Inr (Num m) \<and> m0 < m))"
  using assms
proof (induction cands arbitrary: m0 s0)
  case Nil
  show ?case by simp
next
  case (Cons c cands)
  show ?case
  proof (cases "sentence c \<noteq> t")
    case False
    with Cons.IH [of m0 s0] Cons.prems show ?thesis by auto
  next
    case True
    with Cons.prems have "length e = length (embedding c)" by simp
    then obtain v where v: "cosineSimilarity e (embedding c) = Inr (Num v)"
      using cosineSimilarity_Num by blast
    show ?thesis
    proof (cases "v > m0")
      case gt: True
      from Cons.IH [of v "sentence c"] Cons.prems obtain m s where
        r: "scan_candidates t e (Num v, sentence c) cands = Inr (Num m, s)" "v \<le> m"
        "\<forall>c\<in>set cands. sentence c \<noteq> t \<longrightarrow>
           (\<exists>v. cosineSimilarity e (embedding c) = Inr (Num v) \<and> v \<le> m)"
        "m = v \<and> s = sentence c \<or>
            (\<exists>c\<in>set cands. sentence c \<noteq> t \<and> s = sentence c \<and>
               cosineSimilarity e (embedding c) = Inr (Num m) \<and> v < m)"
        by auto
      have "scan_candidates t e (Num m0, s0) (c # cands) = Inr (Num m, s)"
        using True v gt r(1) by simp
      moreover have "m0 \<le> m" using gt r(2) by simp
      moreover have "\<forall>c'\<in>set (c # cands). sentence c' \<noteq> t \<longrightarrow>
              (\<exists>v. cosineSimilarity e (embedding c') = Inr (Num v) \<and> v \<le> m)"
        using v r(2,3) by auto
      moreover have "\<exists>c'\<in>set (c # cands). sentence c' \<noteq> t \<and> s = sentence c' \<and>
               cosineSimilarity e (embedding c') = Inr (Num m) \<and> m0 < m"
        using r(4) True v gt by auto
      ultimately show ?thesis by blast
    next
      case le: False
      from Cons.IH [of m0 s0] Cons.prems obtain m s where
        r: "scan_candidates t e (Num m0, s0) cands = Inr (Num m, s)" "m0 \<le> m"
        "\<forall>c\<in>set cands. sentence c \<noteq> t \<longrightarrow>
           (\<exists>v. cosineSimilarity e (embedding c) = Inr (Num v) \<and> v \<le> m)"
        "m = m0 \<and> s = s0 \<or>
            (\<exists>c\<in>set cands. sentence c \<noteq> t \<and> s = sentence c \<and>
               cosineSimilarity e (embedding c) = Inr (Num m) \<and> m0 < m)"
        by auto
      have "scan_candidates t e (Num m0, s0) (c # cands) = Inr (Num m, s)"
        using True v le r(1) by simp
      moreover have "\<forall>c'\<in>set (c # cands). sentence c' \<noteq> t \<longrightarrow>
              (\<exists>v. cosineSimilarity e (embedding c') = Inr (Num v) \<and> v \<le> m)"
        using v le r(2,3) by auto
      moreover have "m = m0 \<and> s = s0 \<or> (\<exists>c'\<in>set (c # cands). sentence c' \<noteq> t \<and> s = sentence c' \<and>
               cosineSimilarity e (embedding c') = Inr (Num m) \<and> m0 < m)"
        using r(4) by auto
      ultimately show ?thesis using r(2) by blast
    qed
  qed
qed

lemma findMostSimilar_maximal:
  assumes "\<forall>c\<in>set candidates. sentence c \<noteq> t \<longrightarrow> length (embedding c) = length e"
    and "c0 \<in> set candidates" and "sentence c0 \<noteq> t"
    and "cosineSimilarity e (embedding c0) = Inr (Num v0)" and "- 1 < v0"
  shows "\<exists>c\<in>set candidates. \<exists>m. sentence c \<noteq> t \<and>
           findMostSimilar t e candidates = Inr (Some (sentence c, Num m)) \<and>
           cosineSimilarity e (embedding c) = Inr (Num m) \<and>
           (\<forall>c'\<in>set candidates. sentence c' \<noteq> t \<longrightarrow>
              (\<exists>v. cosineSimilarity e (embedding c') = Inr (Num v) \<and> v \<le> m))"
proof -
  from scan_candidates_maximum [OF assms(1), of "- 1" "[]"] obtain m s where
    r: "scan_candidates t e (Num (- 1), []) candidates = Inr (Num m, s)"
    "\<forall>c\<in>set candidates. sentence c \<noteq> t \<longrightarrow>
       (\<exists>v. cosineSimilarity e (embedding c) = Inr (Num v) \<and> v \<le> m)"
    "m = - 1 \<and> s = [] \<or>
       (\<exists>c\<in>set candidates. sentence c \<noteq> t \<and> s = sentence c \<and>
          cosineSimilarity e (embedding c) = Inr (Num m) \<and> - 1 < m)"
    by auto
  from r(2) assms(2,3,4) have "v0 \<le> m" by auto
  with assms(5) have m: "- 1 < m" by simp
  with r(3) obtain c where c: "c \<in> set candidates" "sentence c \<noteq> t" "s = sentence c"
    "cosineSimilarity e (embedding c) = Inr (Num m)" by auto
  from assms(2) have "candidates \<noteq> []" by auto
  with r(1) m c(3) have "findMostSimilar t e candidates = Inr (Some (sentence c, Num m))"
    by (simp add: findMostSimilar_def)
  with c r(2) show ?thesis by blast
qed

text \<open>
  C2. The scan starts from the similarity \<open>-1\<close> and replaces it only by a strictly larger
  one, and \<^verbatim>\<open>null\<close> is returned when the maximum is still \<open>-1\<close>. A single candidate with
  another label whose vector is opposite to the target has cosine similarity exactly
  \<open>-1\<close>: the claim asks for that candidate, the code returns \<^verbatim>\<open>null\<close>.
\<close>

theorem findMostSimilar_opposite_candidate:
  "sentence (sample_record ''b'' [- 1]) \<noteq> ''a'' \<and>
   cosineSimilarity [1] (embedding (sample_record ''b'' [- 1])) = Inr (Num (- 1)) \<and>
   findMostSimilar ''a'' [1] [sample_record ''b'' [- 1]] = Inr None"
  by (simp add: findMostSimilar_def cosineSimilarity_def magnitude_def dot_def js_quotient_def
        sample_record_def)

end
